theory Spec2Isabelle
  imports Complex_Main "HOL-Library.Word" "HOL-Library.AList"
begin

section \<open>The trainer of haber-gpt (src/trainer.py)\<close>

text \<open>
  Python floats are modelled as \<^typ>\<open>real\<close> (no rounding, no infinities), Python ints as
  \<^typ>\<open>int\<close>, and every exception the trainer can raise as a value of \<open>error\<close>.
\<close>

datatype error =
    ZeroDivisionError
  | AssertionError
  | TypeError
  | FileNotFoundError
  | ValueError
  | RuntimeError
  | ExternalError string

subsection \<open>TrainerConfig\<close>

text \<open>
  The dataclass \<open>TrainerConfig\<close>, field by field. \<open>data_dir\<close> and \<open>weight_decay\<close>
  default to Python's \<open>None\<close>, so they are options.
\<close>

record TrainerConfig =
  seq_length :: int
  batch_size :: int
  data_dir :: "string option"
  warmup_iters :: int
  learning_rate :: real
  lr_decay_iters :: int
  max_iters :: int
  min_lr :: real
  weight_decay :: "real option"
  beta1 :: real
  beta2 :: real
  compile :: bool
  decay_lr :: bool
  seed :: int
  log_interval :: int
  eval_interval :: int
  eval_iters :: int
  out_dir :: string
  wandb_log :: bool
  wandb_project :: string
  wandb_run_name :: string
  grad_norm_clip :: real

text \<open>The defaults of the dataclass.\<close>

definition default_config :: TrainerConfig where
  "default_config =
     \<lparr> seq_length = 1024, batch_size = 64, data_dir = None, warmup_iters = 100,
       learning_rate = 1 / 10000, lr_decay_iters = 5000, max_iters = 5000,
       min_lr = 1 / 1000000, weight_decay = None, beta1 = 9 / 10, beta2 = 95 / 100,
       compile = False, decay_lr = True, seed = 145, log_interval = 10,
       eval_interval = 250, eval_iters = 200, out_dir = ''out'', wandb_log = False,
       wandb_project = ''GPT Training'', wandb_run_name = ''run1'', grad_norm_clip = 1 \<rparr>"

subsection \<open>Parameters and the optimizer\<close>

text \<open>
  A parameter tensor as the trainer reads it: its rank (\<open>p.dim()\<close>), whether it requires
  a gradient, and its number of elements. \<open>p_id\<close> is the identity of the tensor object.
\<close>

record param =
  p_id :: nat
  p_dim :: nat
  p_requires_grad :: bool
  p_numel :: nat

text \<open>
  A parameter group of \<open>torch.optim.AdamW\<close>: the dictionary the trainer builds
  (\<open>params\<close>, \<open>weight_decay\<close>) completed by the optimizer's defaults (\<open>lr\<close>,
  \<open>betas\<close>). \<open>'o\<close> is the optimizer's internal state (the moment estimates).
\<close>

record param_group =
  pg_params :: "param list"
  pg_weight_decay :: "real option"
  pg_lr :: real
  pg_betas :: "real \<times> real"

record 'o optimizer =
  param_groups :: "param_group list"
  opt_state :: 'o

subsection \<open>The learning-rate schedule\<close>

text \<open>
  \<open>Trainer.get_lr\<close>. Both divisions are Python true divisions and raise
  \<open>ZeroDivisionError\<close> on a zero divisor; the \<open>assert\<close> is a branch. The formulas
  are read here in exact real arithmetic: which branch is taken and which error is raised
  depend on the integers only. \<open>get_lr_f64\<close> below is the same function with the rounding
  of every float operation written out.
\<close>

definition get_lr :: "TrainerConfig \<Rightarrow> int \<Rightarrow> error + real" where
  "get_lr c it =
     (if it < warmup_iters c then
        (if warmup_iters c = 0 then Inl ZeroDivisionError
         else Inr (learning_rate c * of_int it / of_int (warmup_iters c)))
      else if it > lr_decay_iters c then Inr (min_lr c)
      else if lr_decay_iters c - warmup_iters c = 0 then Inl ZeroDivisionError
      else
        (let decay_ratio =
               (of_int (it - warmup_iters c) :: real) / of_int (lr_decay_iters c - warmup_iters c)
         in if 0 \<le> decay_ratio \<and> decay_ratio \<le> 1
            then (let coeff = 0.5 * (1 + cos (pi * decay_ratio))
                  in Inr (min_lr c + coeff * (learning_rate c - min_lr c)))
            else Inl AssertionError))"

text \<open>
  \<open>Trainer.update_lr\<close>: with \<open>decay_lr\<close> off the configured rate is returned and the
  optimizer is left alone; otherwise every parameter group receives the scheduled rate.
\<close>

definition update_lr ::
  "TrainerConfig \<Rightarrow> int \<Rightarrow> 'o optimizer \<Rightarrow> error + (real \<times> 'o optimizer)" where
  "update_lr c it opt =
     (if \<not> decay_lr c then Inr (learning_rate c, opt)
      else
        (case get_lr c it of
           Inl e \<Rightarrow> Inl e
         | Inr lr \<Rightarrow>
             Inr (lr, opt\<lparr>param_groups := map (\<lambda>g. g\<lparr>pg_lr := lr\<rparr>) (param_groups opt)\<rparr>)))"

subsection \<open>Binary64 arithmetic\<close>

text \<open>
  Python floats are IEEE 754 binary64 numbers and every arithmetic operation on them returns
  the exact result rounded to the nearest binary64 number, ties to the even significand.
  \<open>rne\<close> rounds a real to the nearest integer, ties to even; \<open>fl\<close> rounds a real to 53
  significant bits. The exponent range is taken as unbounded: neither overflow to infinity nor
  gradual underflow is modelled.
\<close>

definition rne :: "real \<Rightarrow> int" where
  "rne y =
     (let f = \<lfloor>y\<rfloor>
      in if y - of_int f < 1 / 2 then f
         else if 1 / 2 < y - of_int f then f + 1
         else if even f then f else f + 1)"

definition fl :: "real \<Rightarrow> real" where
  "fl x =
     (if x = 0 then 0
      else
        (let q = 2 powr (of_int \<lfloor>log 2 \<bar>x\<bar>\<rfloor> - 52)
         in sgn x * (of_int (rne (\<bar>x\<bar> / q)) * q)))"

text \<open>\<open>math.pi\<close>, the binary64 number nearest to \<open>\<pi>\<close>.\<close>

definition math_pi :: real where
  "math_pi = fl pi"


text \<open>The largest factor by which one rounding enlarges a non-negative number.\<close>

definition uround :: real where
  "uround = 1 + 1 / 2 ^ 53"


subsection \<open>Batches from the token corpus\<close>

text \<open>
  A corpus file is a flat array of unsigned 16-bit token ids; \<open>len(data)\<close> is its number
  of tokens. A batch is the pair of matrices \<open>(x, y)\<close>, each a list of rows of
  \<open>int64\<close> values.
\<close>

type_synonym corpus = "16 word list"
type_synonym batch = "int list list \<times> int list list"

text \<open>
  The random generator behind \<open>torch.randint\<close>: a stream of raw draws and a cursor.
  \<open>torch.randint(high, (n,))\<close> raises for an empty range \<open>high \<le> 0\<close> and for a negative
  size, and otherwise reduces \<open>n\<close> raw draws into \<open>[0, high)\<close>.
\<close>

record rng =
  rng_raw :: "nat \<Rightarrow> nat"
  rng_pos :: nat

definition randint :: "int \<Rightarrow> int \<Rightarrow> rng \<Rightarrow> (error + int list) \<times> rng" where
  "randint high n g =
     (if high \<le> 0 then (Inl RuntimeError, g)
      else if n < 0 then (Inl RuntimeError, g)
      else (Inr (map (\<lambda>k. int (rng_raw g (rng_pos g + k) mod nat high)) [0..<nat n]),
            g\<lparr>rng_pos := rng_pos g + nat n\<rparr>))"

text \<open>
  \<open>os.path.join(dir, name)\<close> for a relative \<open>name\<close>; a directory of \<open>None\<close> (the
  default of \<open>data_dir\<close>) raises \<open>TypeError\<close>.
\<close>

definition path_join :: "string \<Rightarrow> string \<Rightarrow> string" where
  "path_join d b = (if d = [] then b else if last d = CHR ''/'' then d @ b else d @ ''/'' @ b)"

definition os_path_join :: "string option \<Rightarrow> string \<Rightarrow> error + string" where
  "os_path_join a b = (case a of None \<Rightarrow> Inl TypeError | Some d \<Rightarrow> Inr (path_join d b))"

text \<open>
  \<open>np.memmap(path, dtype=np.uint16, mode='r')\<close> over the corpus files \<open>bins\<close>: a missing
  file raises \<open>FileNotFoundError\<close>, an empty one \<open>ValueError\<close>.
\<close>

definition memmap :: "(string \<rightharpoonup> corpus) \<Rightarrow> error + string \<Rightarrow> error + corpus" where
  "memmap bins path =
     (case path of
        Inl e \<Rightarrow> Inl e
      | Inr p \<Rightarrow>
          (case bins p of
             None \<Rightarrow> Inl FileNotFoundError
           | Some data \<Rightarrow> if data = [] then Inl ValueError else Inr data))"

text \<open>
  Python's slice \<open>xs[a:b]\<close>: a negative bound counts from the end, and both bounds are
  clamped to the sequence.
\<close>

definition py_slice :: "'a list \<Rightarrow> int \<Rightarrow> int \<Rightarrow> 'a list" where
  "py_slice xs a b =
     (let n = int (length xs);
          lo = (if a < 0 then max 0 (a + n) else min a n);
          hi = (if b < 0 then max 0 (b + n) else min b n)
      in take (nat (hi - lo)) (drop (nat lo) xs))"

text \<open>
  \<open>torch.stack\<close> of one-dimensional rows: it raises on an empty list and on rows of
  different lengths.
\<close>

definition stack :: "int list list \<Rightarrow> error + int list list" where
  "stack rows =
     (case rows of
        [] \<Rightarrow> Inl RuntimeError
      | r # rs \<Rightarrow> if list_all (\<lambda>q. length q = length r) rs then Inr rows else Inl RuntimeError)"

text \<open>
  \<open>Trainer.get_batch\<close>. The split is compared with \<open>'train'\<close> only; every other value
  takes the \<open>else\<close> branch. \<open>astype(np.int64)\<close> is \<^const>\<open>uint\<close>; pinning and the
  move to the device do not change the values.
\<close>

definition get_batch ::
  "TrainerConfig \<Rightarrow> (string \<rightharpoonup> corpus) \<Rightarrow> string \<Rightarrow> rng \<Rightarrow> (error + batch) \<times> rng" where
  "get_batch c bins split g =
     (case (if split = ''train''
            then memmap bins (os_path_join (data_dir c) ''train.bin'')
            else memmap bins (os_path_join (data_dir c) ''val.bin'')) of
        Inl e \<Rightarrow> (Inl e, g)
      | Inr data \<Rightarrow>
          (case randint (int (length data) - seq_length c) (batch_size c) g of
             (Inl e, g') \<Rightarrow> (Inl e, g')
           | (Inr ix, g') \<Rightarrow>
               (case stack (map (\<lambda>i. map uint (py_slice data i (i + seq_length c))) ix) of
                  Inl e \<Rightarrow> (Inl e, g')
                | Inr x \<Rightarrow>
                    (case stack (map (\<lambda>i. map uint (py_slice data (i + 1) (i + 1 + seq_length c))) ix) of
                       Inl e \<Rightarrow> (Inl e, g')
                     | Inr y \<Rightarrow> (Inr (x, y), g')))))"

subsection \<open>Console output\<close>

text \<open>
  What the trainer prints, one constructor per \<open>print\<close> call, holding the values that are
  formatted into the line.
\<close>

datatype event =
    PrintCompiling
  | PrintCompiled
  | PrintDecayed nat nat
  | PrintNonDecayed nat nat
  | PrintSaving string
  | PrintEval int "real option" "real option" real
  | PrintIter int real real real real

subsection \<open>The optimizer builder\<close>

text \<open>
  The dict comprehension \<open>{pn: p for pn, p in model.named_parameters()}\<close>: insertion
  order is kept, and a repeated key keeps its place and takes the later value.
\<close>

definition param_dict_of :: "(string \<times> param) list \<Rightarrow> (string \<times> param) list" where
  "param_dict_of named = foldl (\<lambda>d (pn, p). AList.update pn p d) [] named"

text \<open>
  \<open>torch.optim.AdamW(optim_groups, lr=..., betas=...)\<close>: every group dictionary is
  completed with the defaults, and the optimizer starts from a fresh internal state. The
  library's validation of the hyperparameters is not modelled.
\<close>

definition AdamW ::
  "(param list \<times> real option) list \<Rightarrow> real \<Rightarrow> real \<times> real \<Rightarrow> 'o \<Rightarrow> 'o optimizer" where
  "AdamW groups lr betas fresh =
     \<lparr>param_groups =
        map (\<lambda>(ps, wd). \<lparr>pg_params = ps, pg_weight_decay = wd, pg_lr = lr, pg_betas = betas\<rparr>) groups,
      opt_state = fresh\<rparr>"

text \<open>
  \<open>Trainer._configure_optimizers\<close>, given \<open>model.named_parameters()\<close>. It returns the
  optimizer and the two lines it prints.
\<close>

definition configure_optimizers ::
  "TrainerConfig \<Rightarrow> 'o \<Rightarrow> (string \<times> param) list \<Rightarrow> 'o optimizer \<times> event list" where
  "configure_optimizers c fresh named =
     (let param_dict = param_dict_of named;
          param_dict = filter (\<lambda>(pn, p). p_requires_grad p) param_dict;
          decay_params = map snd (filter (\<lambda>(n, p). p_dim p \<ge> 2) param_dict);
          nodecay_params = map snd (filter (\<lambda>(n, p). p_dim p < 2) param_dict);
          optim_groups = [(decay_params, weight_decay c), (nodecay_params, Some 0)];
          num_decay_params = sum_list (map p_numel decay_params);
          num_nodecay_params = sum_list (map p_numel nodecay_params);
          betas = (beta1 c, beta2 c);
          optimizer = AdamW optim_groups (learning_rate c) betas fresh
      in (optimizer,
          [PrintDecayed (length decay_params) num_decay_params,
           PrintNonDecayed (length nodecay_params) num_nodecay_params]))"

subsection \<open>The model, the environment and the state of a run\<close>

text \<open>
  The model as the trainer uses it: the sequence length of its configuration, its named
  parameters, its mode (\<open>model.training\<close>, switched by \<open>model.eval()\<close> and
  \<open>model.train()\<close>) and its weights \<open>'w\<close>, which the trainer never inspects.
\<close>

record 'w nn_module =
  mod_seq_length :: int
  named_parameters :: "(string \<times> param) list"
  training :: bool
  weights :: 'w

text \<open>The record pushed to the metrics sink by \<open>wandb.log\<close>.\<close>

record metrics =
  m_iter :: int
  m_train_loss :: "real option"
  m_val_loss :: "real option"
  m_lr :: real
  m_tokens_per_sec :: real

text \<open>The dictionary written by \<open>torch.save\<close>.\<close>

record ('w, 'o) checkpoint =
  ck_model :: 'w
  ck_optimizer :: "'o optimizer"
  ck_iter_num :: int
  ck_best_val_loss :: real

text \<open>
  What the trainer calls and does not define: the corpus files under \<open>data_dir\<close>, the
  generator \<open>torch.manual_seed\<close> installs, the forward pass \<open>model(X, Y)\<close> (its loss, or
  the exception it raises) as a function of the weights, the mode and the batch, the
  update made by \<open>zero_grad\<close>, \<open>backward\<close>, \<open>clip_grad_norm_\<close> and \<open>optimizer.step\<close>
  (the new weights and optimizer state, or the exception one of them raises), the outcome of \<open>wandb.init\<close> and of \<open>wandb.log\<close> (\<open>None\<close> when the call returns, the
  exception otherwise), and the durations \<open>t1 - t0\<close> measured by \<open>time.time()\<close> in
  \<open>do_eval\<close> and in the loop.
\<close>

record ('w, 'o) env =
  corpus_files :: "string \<rightharpoonup> corpus"
  seeded :: "int \<Rightarrow> rng"
  forward :: "'w \<Rightarrow> bool \<Rightarrow> batch \<Rightarrow> error + real"
  backward_step :: "'w \<Rightarrow> 'o optimizer \<Rightarrow> batch \<Rightarrow> real \<Rightarrow> error + 'w \<times> 'o"
  fresh_state :: 'o
  wandb_init :: "error option"
  wandb_push :: "metrics \<Rightarrow> error option"
  eval_seconds :: "int \<Rightarrow> real"
  iter_seconds :: "int \<Rightarrow> real"

text \<open>
  What a run changes: the model, the random generator, the checkpoint files and the
  directories of the file system, the history of \<open>torch.save\<close> calls, the records the
  sink accepted, and the console.
\<close>

record ('w, 'o) state =
  model :: "'w nn_module"
  gen :: rng
  ckpt_files :: "string \<rightharpoonup> ('w, 'o) checkpoint"
  dirs :: "string set"
  saves :: "(string \<times> ('w, 'o) checkpoint) list"
  pushed :: "metrics list"
  console :: "event list"

subsection \<open>Loss estimation\<close>

text \<open>
  \<open>losses.mean()\<close> of a tensor of \<open>eval_iters\<close> entries; the mean of an empty tensor is
  \<open>nan\<close>, modelled as \<open>None\<close>.
\<close>

definition tensor_mean :: "real list \<Rightarrow> real option" where
  "tensor_mean xs = (if xs = [] then None else Some (sum_list xs / of_nat (length xs)))"

text \<open>
  The inner loop of \<open>estimate_loss\<close>, \<open>for k in range(eval_iters)\<close>: a batch of the
  split, a forward pass in the model's current mode, and the loss stored. An exception
  leaves the loop at once, with the state as it is.
\<close>

fun eval_batches ::
  "TrainerConfig \<Rightarrow> ('w, 'o) env \<Rightarrow> string \<Rightarrow> nat \<Rightarrow> ('w, 'o) state \<Rightarrow>
     (error + real list) \<times> ('w, 'o) state" where
  "eval_batches c env split 0 s = (Inr [], s)"
| "eval_batches c env split (Suc n) s =
     (case get_batch c (corpus_files env) split (gen s) of
        (Inl e, g) \<Rightarrow> (Inl e, s\<lparr>gen := g\<rparr>)
      | (Inr XY, g) \<Rightarrow>
          (case forward env (weights (model s)) (training (model s)) XY of
             Inl e \<Rightarrow> (Inl e, s\<lparr>gen := g\<rparr>)
           | Inr loss \<Rightarrow>
               (case eval_batches c env split n (s\<lparr>gen := g\<rparr>) of
                  (Inl e, s') \<Rightarrow> (Inl e, s')
                | (Inr losses, s') \<Rightarrow> (Inr (loss # losses), s'))))"

text \<open>
  One round of the outer loop: \<open>torch.zeros(eval_iters)\<close> raises for a negative size,
  then the inner loop, then the mean.
\<close>

definition estimate_split ::
  "TrainerConfig \<Rightarrow> ('w, 'o) env \<Rightarrow> string \<Rightarrow> ('w, 'o) state \<Rightarrow>
     (error + real option) \<times> ('w, 'o) state" where
  "estimate_split c env split s =
     (if eval_iters c < 0 then (Inl RuntimeError, s)
      else
        (case eval_batches c env split (nat (eval_iters c)) s of
           (Inl e, s') \<Rightarrow> (Inl e, s')
         | (Inr losses, s') \<Rightarrow> (Inr (tensor_mean losses), s')))"

text \<open>
  \<open>Trainer.estimate_loss\<close>: \<open>model.eval()\<close>, the two splits in the order
  \<open>['train', 'val']\<close>, \<open>model.train()\<close>. There is no \<open>try\<close>: an exception skips
  \<open>model.train()\<close>. The result is the pair \<open>(out['train'], out['val'])\<close>.
\<close>

definition estimate_loss ::
  "TrainerConfig \<Rightarrow> ('w, 'o) env \<Rightarrow> ('w, 'o) state \<Rightarrow>
     (error + real option \<times> real option) \<times> ('w, 'o) state" where
  "estimate_loss c env s =
     (let s0 = s\<lparr>model := (model s)\<lparr>training := False\<rparr>\<rparr>
      in case estimate_split c env ''train'' s0 of
           (Inl e, s1) \<Rightarrow> (Inl e, s1)
         | (Inr train_mean, s1) \<Rightarrow>
             (case estimate_split c env ''val'' s1 of
                (Inl e, s2) \<Rightarrow> (Inl e, s2)
              | (Inr val_mean, s2) \<Rightarrow>
                  (Inr (train_mean, val_mean), s2\<lparr>model := (model s2)\<lparr>training := True\<rparr>\<rparr>)))"

subsection \<open>Evaluation, metrics and checkpoint\<close>

text \<open>
  \<open>do_eval\<close>, lines 226 to 234: with \<open>wandb_log\<close> on, the record is pushed to the sink;
  an exception of \<open>wandb.log\<close> is not caught.
\<close>

definition do_eval_log ::
  "TrainerConfig \<Rightarrow> ('w, 'o) env \<Rightarrow> real option \<times> real option \<Rightarrow> real \<Rightarrow> int \<Rightarrow> real \<Rightarrow>
     ('w, 'o) state \<Rightarrow> (error + unit) \<times> ('w, 'o) state" where
  "do_eval_log c env losses running_fwd_bwd_tokens_per_sec iter lr s =
     (if wandb_log c then
        (let record = \<lparr>m_iter = iter, m_train_loss = fst losses, m_val_loss = snd losses,
                        m_lr = lr, m_tokens_per_sec = running_fwd_bwd_tokens_per_sec\<rparr>
         in case wandb_push env record of
              Some e \<Rightarrow> (Inl e, s)
            | None \<Rightarrow> (Inr (), s\<lparr>pushed := pushed s @ [record]\<rparr>))
      else (Inr (), s))"

text \<open>
  \<open>do_eval\<close>, lines 236 to 248. The comparison with \<open>nan\<close> is false. \<open>os.makedirs('')\<close>
  raises; \<open>torch.save\<close> replaces the file at the path. The value returned is the local
  variable \<open>best_val_loss\<close> after the block.
\<close>

definition do_eval_checkpoint ::
  "TrainerConfig \<Rightarrow> 'o optimizer \<Rightarrow> real \<Rightarrow> real option \<times> real option \<Rightarrow> int \<Rightarrow>
     ('w, 'o) state \<Rightarrow> (error + real) \<times> ('w, 'o) state" where
  "do_eval_checkpoint c optimizer best_val_loss losses iter s =
     (case snd losses of
        None \<Rightarrow> (Inr best_val_loss, s)
      | Some val \<Rightarrow>
          if val < best_val_loss then
            (let best_val_loss = val
             in if iter > 0 then
                  (let checkpoint = \<lparr>ck_model = weights (model s), ck_optimizer = optimizer,
                                      ck_iter_num = iter, ck_best_val_loss = best_val_loss\<rparr>;
                       s1 = s\<lparr>console := console s @ [PrintSaving (out_dir c)]\<rparr>
                   in if out_dir c \<notin> dirs s1 \<and> out_dir c = [] then (Inl FileNotFoundError, s1)
                      else
                        (let s2 = (if out_dir c \<notin> dirs s1
                                   then s1\<lparr>dirs := insert (out_dir c) (dirs s1)\<rparr> else s1);
                             path = path_join (out_dir c) ''ckpt.pt''
                         in (Inr best_val_loss,
                             s2\<lparr>ckpt_files := (ckpt_files s2)(path \<mapsto> checkpoint),
                                saves := saves s2 @ [(path, checkpoint)]\<rparr>)))
                else (Inr best_val_loss, s))
          else (Inr best_val_loss, s))"

text \<open>
  \<open>do_eval\<close>, lines 250 to 265: the projected remaining time and the evaluation line.
  \<open>//\<close> is floor division and raises on a zero divisor.
\<close>

definition do_eval_report ::
  "TrainerConfig \<Rightarrow> ('w, 'o) env \<Rightarrow> real option \<times> real option \<Rightarrow> real \<Rightarrow> real \<Rightarrow> int \<Rightarrow>
     ('w, 'o) state \<Rightarrow> (error + unit) \<times> ('w, 'o) state" where
  "do_eval_report c env losses running_fwd_bwd_tokens_per_sec time_per_iter iter s =
     (let dt = eval_seconds env iter
      in if running_fwd_bwd_tokens_per_sec > 0 then
           (let rem_iters = max_iters c - iter;
                rem_fwd_bwd_time = of_int rem_iters * time_per_iter
            in if eval_interval c = 0 then (Inl ZeroDivisionError, s)
               else
                 (let rem_evals = rem_iters div eval_interval c;
                      rem_evals_time = dt * of_int rem_evals;
                      eta = rem_fwd_bwd_time + rem_evals_time
                  in (Inr (), s\<lparr>console := console s @ [PrintEval iter (fst losses) (snd losses) eta]\<rparr>)))
         else
           (Inr (), s\<lparr>console := console s @ [PrintEval iter (fst losses) (snd losses) 0]\<rparr>))"

text \<open>
  \<open>Trainer.do_eval\<close>. It has no \<open>return\<close>: the best validation loss computed by the
  checkpoint block is dropped, and the caller gets \<open>None\<close>.
\<close>

definition do_eval ::
  "TrainerConfig \<Rightarrow> ('w, 'o) env \<Rightarrow> 'o optimizer \<Rightarrow> real \<Rightarrow> real \<Rightarrow> real \<Rightarrow> int \<Rightarrow> real \<Rightarrow>
     ('w, 'o) state \<Rightarrow> (error + unit) \<times> ('w, 'o) state" where
  "do_eval c env optimizer best_val_loss running_fwd_bwd_tokens_per_sec time_per_iter iter lr s =
     (case estimate_loss c env s of
        (Inl e, s1) \<Rightarrow> (Inl e, s1)
      | (Inr losses, s1) \<Rightarrow>
          (case do_eval_log c env losses running_fwd_bwd_tokens_per_sec iter lr s1 of
             (Inl e, s2) \<Rightarrow> (Inl e, s2)
           | (Inr _, s2) \<Rightarrow>
               (case do_eval_checkpoint c optimizer best_val_loss losses iter s2 of
                  (Inl e, s3) \<Rightarrow> (Inl e, s3)
                | (Inr _, s3) \<Rightarrow>
                    do_eval_report c env losses running_fwd_bwd_tokens_per_sec time_per_iter iter s3)))"

subsection \<open>The training loop\<close>

text \<open>The local variables of \<open>train\<close> that the loop carries from one iteration to the next.\<close>

record 'o loop_vars =
  v_XY :: batch
  v_optimizer :: "'o optimizer"
  v_best_val_loss :: real
  v_running_fwd_bwd_tokens_per_sec :: real
  v_running_iter_time :: real

text \<open>
  The logging block of the loop body, lines 204 to 219: \<open>1.0 / dt\<close> raises on a zero
  duration; the first sample sets the running values, later ones are smoothed.
\<close>

definition train_log ::
  "TrainerConfig \<Rightarrow> ('w, 'o) env \<Rightarrow> int \<Rightarrow> real \<Rightarrow> 'o loop_vars \<Rightarrow> ('w, 'o) state \<Rightarrow>
     (error + 'o loop_vars) \<times> ('w, 'o) state" where
  "train_log c env iter loss v s =
     (if log_interval c = 0 then (Inl ZeroDivisionError, s)
      else if iter mod log_interval c = 0 then
        (let dt = iter_seconds env iter;
             fwd_bwd_tokens = batch_size c * seq_length c
         in if dt = 0 then (Inl ZeroDivisionError, s)
            else
              (let fwd_bwd_tokens_per_sec = of_int fwd_bwd_tokens * (1 / dt);
                   v' = (if v_running_fwd_bwd_tokens_per_sec v = 0
                         then v\<lparr>v_running_fwd_bwd_tokens_per_sec := fwd_bwd_tokens_per_sec,
                                v_running_iter_time := dt\<rparr>
                         else v\<lparr>v_running_fwd_bwd_tokens_per_sec :=
                                  0.9 * v_running_fwd_bwd_tokens_per_sec v + 0.1 * fwd_bwd_tokens_per_sec,
                                v_running_iter_time := 0.9 * v_running_iter_time v + 0.1 * dt\<rparr>)
               in (Inr v',
                   s\<lparr>console := console s @
                        [PrintIter iter loss (v_running_iter_time v' * 1000) fwd_bwd_tokens_per_sec
                           (v_running_fwd_bwd_tokens_per_sec v')]\<rparr>)))
      else (Inr v, s))"

text \<open>
  \<open>optimizer.step()\<close> of the fused AdamW rejects a group that holds parameters and whose
  \<open>weight_decay\<close> is \<open>None\<close> (the default of \<open>TrainerConfig.weight_decay\<close>): it raises
  \<open>TypeError\<close>. A group without parameters is skipped.
\<close>

definition step_rejects :: "'o optimizer \<Rightarrow> bool" where
  "step_rejects optimizer =
     list_ex (\<lambda>g. pg_params g \<noteq> [] \<and> pg_weight_decay g = None) (param_groups optimizer)"

text \<open>
  One iteration of the loop in \<open>train\<close>, lines 183 to 219. \<open>do_eval\<close> is called for its
  effects only; \<open>best_val_loss\<close> is passed to it and never assigned.
\<close>

definition train_iter ::
  "TrainerConfig \<Rightarrow> ('w, 'o) env \<Rightarrow> int \<Rightarrow> 'o loop_vars \<Rightarrow> ('w, 'o) state \<Rightarrow>
     (error + 'o loop_vars) \<times> ('w, 'o) state" where
  "train_iter c env iter v s =
     (case update_lr c iter (v_optimizer v) of
        Inl e \<Rightarrow> (Inl e, s)
      | Inr (lr, optimizer) \<Rightarrow>
          (case (if eval_interval c = 0 then (Inl ZeroDivisionError, s)
                 else if iter mod eval_interval c = 0
                 then do_eval c env optimizer (v_best_val_loss v)
                        (v_running_fwd_bwd_tokens_per_sec v) (v_running_iter_time v) iter lr s
                 else (Inr (), s)) of
             (Inl e, s1) \<Rightarrow> (Inl e, s1)
           | (Inr _, s1) \<Rightarrow>
               (case forward env (weights (model s1)) (training (model s1)) (v_XY v) of
                  Inl e \<Rightarrow> (Inl e, s1)
                | Inr loss \<Rightarrow>
                    (case get_batch c (corpus_files env) ''train'' (gen s1) of
                       (Inl e, g) \<Rightarrow> (Inl e, s1\<lparr>gen := g\<rparr>)
                     | (Inr XY, g) \<Rightarrow>
                         (case backward_step env (weights (model s1)) optimizer (v_XY v)
                                 (grad_norm_clip c) of
                            Inl e \<Rightarrow> (Inl e, s1\<lparr>gen := g\<rparr>)
                          | Inr (w, o_state) \<Rightarrow>
                              if step_rejects optimizer then (Inl TypeError, s1\<lparr>gen := g\<rparr>)
                              else
                                (let s2 = s1\<lparr>gen := g, model := (model s1)\<lparr>weights := w\<rparr>\<rparr>;
                                     v1 = v\<lparr>v_XY := XY,
                                            v_optimizer := optimizer\<lparr>opt_state := o_state\<rparr>\<rparr>
                                 in train_log c env iter loss v1 s2))))))"

text \<open>\<open>for iter in range(start_iter, max_iters + 1)\<close>, over the list of the iterations left.\<close>

fun train_loop ::
  "TrainerConfig \<Rightarrow> ('w, 'o) env \<Rightarrow> int list \<Rightarrow> 'o loop_vars \<Rightarrow> ('w, 'o) state \<Rightarrow>
     (error + unit) \<times> ('w, 'o) state" where
  "train_loop c env [] v s = (Inr (), s)"
| "train_loop c env (iter # iters) v s =
     (case train_iter c env iter v s of
        (Inl e, s') \<Rightarrow> (Inl e, s')
      | (Inr v', s') \<Rightarrow> train_loop c env iters v' s')"

text \<open>
  \<open>Trainer.train\<close>: the assertion on the sequence lengths, the seed, the optional
  compilation (which leaves the model's behaviour as it is), \<open>_init_logging\<close>, the
  optimizer, \<open>model.train()\<close>, the first batch, and the loop from 0 to \<open>max_iters\<close> with
  \<open>best_val_loss = 1e+9\<close>.
\<close>

definition train ::
  "TrainerConfig \<Rightarrow> ('w, 'o) env \<Rightarrow> ('w, 'o) state \<Rightarrow> (error + unit) \<times> ('w, 'o) state" where
  "train c env s =
     (if seq_length c \<noteq> mod_seq_length (model s) then (Inl AssertionError, s)
      else
        (let s1 = s\<lparr>gen := seeded env (seed c)\<rparr>;
             s2 = (if compile c then s1\<lparr>console := console s1 @ [PrintCompiling, PrintCompiled]\<rparr>
                   else s1)
         in case (if wandb_log c then wandb_init env else None) of
              Some e \<Rightarrow> (Inl e, s2)
            | None \<Rightarrow>
                (let (optimizer, printed) =
                       configure_optimizers c (fresh_state env) (named_parameters (model s2));
                     s3 = s2\<lparr>console := console s2 @ printed\<rparr>;
                     s4 = s3\<lparr>model := (model s3)\<lparr>training := True\<rparr>\<rparr>
                 in case get_batch c (corpus_files env) ''train'' (gen s4) of
                      (Inl e, g) \<Rightarrow> (Inl e, s4\<lparr>gen := g\<rparr>)
                    | (Inr XY, g) \<Rightarrow>
                        train_loop c env [0..max_iters c]
                          \<lparr>v_XY = XY, v_optimizer = optimizer, v_best_val_loss = 1000000000,
                            v_running_fwd_bwd_tokens_per_sec = 0, v_running_iter_time = 0\<rparr>
                          (s4\<lparr>gen := g\<rparr>))))"

subsection \<open>Concrete configurations\<close>

text \<open>
  Configurations the dataclass accepts (it validates nothing): one whose warmup ends where
  the decay ends, and one whose warmup is longer than the decay.
\<close>

definition flat_config :: TrainerConfig where
  "flat_config = default_config\<lparr>warmup_iters := 5, lr_decay_iters := 5\<rparr>"

definition inverted_config :: TrainerConfig where
  "inverted_config = default_config\<lparr>warmup_iters := 10, lr_decay_iters := 5\<rparr>"


definition one_group :: "unit optimizer" where
  "one_group =
     \<lparr>param_groups =
        [\<lparr>pg_params = [], pg_weight_decay = Some 0, pg_lr = 1 / 10000, pg_betas = (9 / 10, 95 / 100)\<rparr>],
      opt_state = ()\<rparr>"

text \<open>A data directory with a six-token training file and a four-token validation file.\<close>

definition tiny_corpus :: corpus where
  "tiny_corpus = [10, 11, 12, 13, 14, 15]"

definition tiny_bins :: "string \<rightharpoonup> corpus" where
  "tiny_bins = [''data/train.bin'' \<mapsto> tiny_corpus, ''data/val.bin'' \<mapsto> [20, 21, 22, 23]]"

definition tiny_config :: TrainerConfig where
  "tiny_config = default_config\<lparr>seq_length := 2, batch_size := 3, data_dir := Some ''data''\<rparr>"

definition count_rng :: rng where
  "count_rng = \<lparr>rng_raw = (\<lambda>k. 7 * k + 5), rng_pos = 0\<rparr>"

text \<open>The named parameters of a small model of the shape of \<open>GPT\<close>, one of them frozen.\<close>

definition gpt_params :: "(string \<times> param) list" where
  "gpt_params =
     [(''transformer.wte.weight'', \<lparr>p_id = 0, p_dim = 2, p_requires_grad = True, p_numel = 32\<rparr>),
      (''transformer.wpe.weight'', \<lparr>p_id = 1, p_dim = 2, p_requires_grad = False, p_numel = 16\<rparr>),
      (''transformer.h.0.ln_1.weight'', \<lparr>p_id = 2, p_dim = 1, p_requires_grad = True, p_numel = 4\<rparr>),
      (''transformer.h.0.attn.c_attn.weight'', \<lparr>p_id = 3, p_dim = 2, p_requires_grad = True, p_numel = 48\<rparr>),
      (''transformer.ln_f.weight'', \<lparr>p_id = 4, p_dim = 1, p_requires_grad = True, p_numel = 4\<rparr>)]"

text \<open>
  A run of three iterations (0, 1 and 2) with weight decay 0.1 that evaluates at each of
  them, on one batch per split. The weights are the number of optimizer steps taken, and the loss of a forward
  pass is 3.0 before the first step, 2.1 after one step and 2.5 after two or more.
\<close>

definition run_config :: TrainerConfig where
  "run_config =
     default_config\<lparr>seq_length := 1, batch_size := 1, data_dir := Some ''data'',
       weight_decay := Some (1 / 10), max_iters := 2, eval_interval := 1, eval_iters := 1,
       log_interval := 1\<rparr>"

definition run_env :: "(nat, nat) env" where
  "run_env =
     \<lparr>corpus_files = [''data/train.bin'' \<mapsto> [10, 11], ''data/val.bin'' \<mapsto> [20, 21]],
      seeded = (\<lambda>_. \<lparr>rng_raw = (\<lambda>_. 0), rng_pos = 0\<rparr>),
      forward = (\<lambda>w _ _. Inr (if w = 0 then 3 else if w = 1 then 21 / 10 else 25 / 10)),
      backward_step = (\<lambda>w opt _ _. Inr (Suc w, Suc (opt_state opt))),
      fresh_state = 0,
      wandb_init = None,
      wandb_push = (\<lambda>_. None),
      eval_seconds = (\<lambda>_. 2),
      iter_seconds = (\<lambda>_. 1 / 20)\<rparr>"

definition run_state :: "(nat, nat) state" where
  "run_state =
     \<lparr>model = \<lparr>mod_seq_length = 1, named_parameters = gpt_params, training = True, weights = 0\<rparr>,
      gen = \<lparr>rng_raw = (\<lambda>_. 0), rng_pos = 0\<rparr>,
      ckpt_files = Map.empty,
      dirs = {},
      saves = [],
      pushed = [],
      console = []\<rparr>"

text \<open>The environment of the run with no corpus file under the data directory.\<close>

definition no_data_env :: "(nat, nat) env" where
  "no_data_env = run_env\<lparr>corpus_files := Map.empty\<rparr>"

text \<open>
  The run with the metrics sink enabled and a sink that fails on every push; loop
  variables as they are before the first iteration; and the state of the run after one
  optimizer step.
\<close>

definition logging_config :: TrainerConfig where
  "logging_config = run_config\<lparr>wandb_log := True\<rparr>"

definition failing_sink_env :: "(nat, nat) env" where
  "failing_sink_env = run_env\<lparr>wandb_push := (\<lambda>_. Some (ExternalError ''wandb''))\<rparr>"

definition first_vars :: "nat loop_vars" where
  "first_vars =
     \<lparr>v_XY = ([[10]], [[11]]),
      v_optimizer =
        \<lparr>param_groups =
           [\<lparr>pg_params = [], pg_weight_decay = Some (1 / 10), pg_lr = 1 / 10000,
             pg_betas = (9 / 10, 95 / 100)\<rparr>],
         opt_state = 0\<rparr>,
      v_best_val_loss = 1000000000,
      v_running_fwd_bwd_tokens_per_sec = 0,
      v_running_iter_time = 0\<rparr>"

definition trained_state :: "(nat, nat) state" where
  "trained_state = run_state\<lparr>model := (model run_state)\<lparr>weights := 1\<rparr>\<rparr>"

section \<open>Properties\<close>

subsection \<open>The learning-rate schedule\<close>

lemma get_lr_warmup:
  "0 \<le> it \<Longrightarrow> it < warmup_iters c \<Longrightarrow>
     get_lr c it = Inr (learning_rate c * of_int it / of_int (warmup_iters c))"
  by (simp add: get_lr_def)

lemma get_lr_plateau:
  "warmup_iters c \<le> it \<Longrightarrow> lr_decay_iters c < it \<Longrightarrow> get_lr c it = Inr (min_lr c)"
  by (simp add: get_lr_def)

lemma decay_ratio_unit:
  fixes it w d :: int
  assumes "w \<le> it" "it \<le> d" "w \<noteq> d"
  shows "0 \<le> (of_int (it - w) :: real) / of_int (d - w)"
    and "(of_int (it - w) :: real) / of_int (d - w) \<le> 1"
proof -
  from assms have pos: "(0::real) < of_int (d - w)" by simp
  from assms have num: "(0::real) \<le> of_int (it - w)" by simp
  show "0 \<le> (of_int (it - w) :: real) / of_int (d - w)"
    using pos num by simp
  from assms have "(of_int (it - w) :: real) \<le> of_int (d - w)" by simp
  then show "(of_int (it - w) :: real) / of_int (d - w) \<le> 1"
    using pos by simp
qed

lemma get_lr_cosine:
  assumes "warmup_iters c \<le> it" "it \<le> lr_decay_iters c" "warmup_iters c \<noteq> lr_decay_iters c"
  shows "get_lr c it =
           Inr (min_lr c +
                0.5 * (1 + cos (pi * (of_int (it - warmup_iters c) /
                                      of_int (lr_decay_iters c - warmup_iters c)))) *
                (learning_rate c - min_lr c))"
proof -
  note r = decay_ratio_unit [OF assms]
  from assms have "\<not> it < warmup_iters c" "\<not> it > lr_decay_iters c"
    "lr_decay_iters c - warmup_iters c \<noteq> 0" by simp_all
  then show ?thesis
    using r by (simp add: get_lr_def Let_def)
qed

lemma update_lr_decay:
  "decay_lr c \<Longrightarrow> get_lr c it = Inr v \<Longrightarrow>
     update_lr c it opt = Inr (v, opt\<lparr>param_groups := map (\<lambda>g. g\<lparr>pg_lr := v\<rparr>) (param_groups opt)\<rparr>)"
  by (simp add: update_lr_def)

text \<open>
  Claim C2, as amended. With \<open>decay_lr\<close> enabled and an iteration \<open>it \<ge> 0\<close>, the
  phases are tested in the order of the source: in warmup (\<open>it < warmup_iters\<close>) the rate
  is \<open>learning_rate * it / warmup_iters\<close>; otherwise, past the decay
  (\<open>it > lr_decay_iters\<close>) it is \<open>min_lr\<close>; otherwise, provided
  \<open>warmup_iters \<noteq> lr_decay_iters\<close>, it is the cosine formula. The rate is returned and
  written into every parameter group.
\<close>

theorem update_lr_three_phase:
  assumes "decay_lr c" and "0 \<le> it"
  shows "(it < warmup_iters c \<longrightarrow>
            update_lr c it opt =
              Inr (learning_rate c * of_int it / of_int (warmup_iters c),
                   opt\<lparr>param_groups :=
                         map (\<lambda>g. g\<lparr>pg_lr := learning_rate c * of_int it / of_int (warmup_iters c)\<rparr>)
                           (param_groups opt)\<rparr>)) \<and>
         (\<not> it < warmup_iters c \<and> it > lr_decay_iters c \<longrightarrow>
            update_lr c it opt =
              Inr (min_lr c, opt\<lparr>param_groups := map (\<lambda>g. g\<lparr>pg_lr := min_lr c\<rparr>) (param_groups opt)\<rparr>)) \<and>
         (\<not> it < warmup_iters c \<and> \<not> it > lr_decay_iters c \<and> warmup_iters c \<noteq> lr_decay_iters c \<longrightarrow>
            update_lr c it opt =
              Inr (min_lr c +
                   0.5 * (1 + cos (pi * (of_int (it - warmup_iters c) /
                                         of_int (lr_decay_iters c - warmup_iters c)))) *
                   (learning_rate c - min_lr c),
                   opt\<lparr>param_groups :=
                         map (\<lambda>g. g\<lparr>pg_lr :=
                                      min_lr c +
                                      0.5 * (1 + cos (pi * (of_int (it - warmup_iters c) /
                                                            of_int (lr_decay_iters c - warmup_iters c)))) *
                                      (learning_rate c - min_lr c)\<rparr>)
                           (param_groups opt)\<rparr>))"
proof (intro conjI impI)
  assume "it < warmup_iters c"
  with assms show "update_lr c it opt =
              Inr (learning_rate c * of_int it / of_int (warmup_iters c),
                   opt\<lparr>param_groups :=
                         map (\<lambda>g. g\<lparr>pg_lr := learning_rate c * of_int it / of_int (warmup_iters c)\<rparr>)
                           (param_groups opt)\<rparr>)"
    by (intro update_lr_decay get_lr_warmup)
next
  assume "\<not> it < warmup_iters c \<and> it > lr_decay_iters c"
  with assms show "update_lr c it opt =
              Inr (min_lr c, opt\<lparr>param_groups := map (\<lambda>g. g\<lparr>pg_lr := min_lr c\<rparr>) (param_groups opt)\<rparr>)"
    by (intro update_lr_decay get_lr_plateau) simp_all
next
  assume "\<not> it < warmup_iters c \<and> \<not> it > lr_decay_iters c \<and> warmup_iters c \<noteq> lr_decay_iters c"
  with assms show "update_lr c it opt =
              Inr (min_lr c +
                   0.5 * (1 + cos (pi * (of_int (it - warmup_iters c) /
                                         of_int (lr_decay_iters c - warmup_iters c)))) *
                   (learning_rate c - min_lr c),
                   opt\<lparr>param_groups :=
                         map (\<lambda>g. g\<lparr>pg_lr :=
                                      min_lr c +
                                      0.5 * (1 + cos (pi * (of_int (it - warmup_iters c) /
                                                            of_int (lr_decay_iters c - warmup_iters c)))) *
                                      (learning_rate c - min_lr c)\<rparr>)
                           (param_groups opt)\<rparr>)"
    by (intro update_lr_decay get_lr_cosine) simp_all
qed

theorem update_lr_three_phase_witness:
  "decay_lr default_config \<and>
   ((0::int) \<le> 50 \<and> 50 < warmup_iters default_config \<and>
    update_lr default_config 50 one_group =
      Inr (learning_rate default_config * of_int 50 / of_int (warmup_iters default_config),
           one_group\<lparr>param_groups :=
             map (\<lambda>g. g\<lparr>pg_lr := learning_rate default_config * of_int 50 /
                                   of_int (warmup_iters default_config)\<rparr>)
               (param_groups one_group)\<rparr>)) \<and>
   ((0::int) \<le> 6000 \<and> \<not> 6000 < warmup_iters default_config \<and>
    6000 > lr_decay_iters default_config \<and>
    update_lr default_config 6000 one_group =
      Inr (min_lr default_config,
           one_group\<lparr>param_groups :=
             map (\<lambda>g. g\<lparr>pg_lr := min_lr default_config\<rparr>) (param_groups one_group)\<rparr>)) \<and>
   ((0::int) \<le> 100 \<and> \<not> 100 < warmup_iters default_config \<and>
    \<not> 100 > lr_decay_iters default_config \<and>
    warmup_iters default_config \<noteq> lr_decay_iters default_config \<and>
    update_lr default_config 100 one_group =
      Inr (learning_rate default_config,
           one_group\<lparr>param_groups :=
             map (\<lambda>g. g\<lparr>pg_lr := learning_rate default_config\<rparr>) (param_groups one_group)\<rparr>))"
proof -
  have d: "decay_lr default_config"
    by (simp add: default_config_def)
  have w: "warmup_iters default_config = 100" "lr_decay_iters default_config = 5000"
    by (simp_all add: default_config_def)
  have a: "update_lr default_config 50 one_group =
      Inr (learning_rate default_config * of_int 50 / of_int (warmup_iters default_config),
           one_group\<lparr>param_groups :=
             map (\<lambda>g. g\<lparr>pg_lr := learning_rate default_config * of_int 50 /
                                   of_int (warmup_iters default_config)\<rparr>)
               (param_groups one_group)\<rparr>)"
    using update_lr_three_phase [OF d, of 50 one_group] w by simp
  have b: "update_lr default_config 6000 one_group =
      Inr (min_lr default_config,
           one_group\<lparr>param_groups :=
             map (\<lambda>g. g\<lparr>pg_lr := min_lr default_config\<rparr>) (param_groups one_group)\<rparr>)"
    using update_lr_three_phase [OF d, of 6000 one_group] w by simp
  have e: "update_lr default_config 100 one_group =
      Inr (learning_rate default_config,
           one_group\<lparr>param_groups :=
             map (\<lambda>g. g\<lparr>pg_lr := learning_rate default_config\<rparr>) (param_groups one_group)\<rparr>)"
    using update_lr_three_phase [OF d, of 100 one_group] w by simp
  show ?thesis
    using d w a b e by simp
qed

text \<open>
  The claim as stated fails: with \<open>warmup_iters = lr_decay_iters = 5\<close> the iteration 5 is
  in neither the warmup nor the plateau, and the call raises \<open>ZeroDivisionError\<close> instead
  of returning the cosine value; with a warmup longer than the decay, an iteration past
  \<open>lr_decay_iters\<close> but still in warmup gets the ramp value, not \<open>min_lr\<close>.
\<close>

theorem update_lr_three_phase_counterexample:
  "decay_lr flat_config \<and> \<not> 5 < warmup_iters flat_config \<and> \<not> 5 > lr_decay_iters flat_config \<and>
   update_lr flat_config 5 one_group = Inl ZeroDivisionError \<and>
   decay_lr inverted_config \<and> 7 > lr_decay_iters inverted_config \<and>
   get_lr inverted_config 7 = Inr (7 / 100000) \<and>
   get_lr inverted_config 7 \<noteq> Inr (min_lr inverted_config)"
  by (simp add: update_lr_def get_lr_def flat_config_def inverted_config_def default_config_def)

subsection \<open>The schedule in binary64 arithmetic\<close>


lemma rne_error: "\<bar>of_int (rne y) - y\<bar> \<le> 1 / 2"
proof -
  define f where "f = \<lfloor>y\<rfloor>"
  have a: "of_int f \<le> y" "y < of_int f + 1"
    unfolding f_def by linarith+
  have r: "rne y = (if y - of_int f < 1 / 2 then f
                    else if 1 / 2 < y - of_int f then f + 1
                    else if even f then f else f + 1)"
    by (simp add: rne_def f_def)
  consider (lo) "y - of_int f < 1 / 2" | (hi) "1 / 2 < y - of_int f" | (tie) "y - of_int f = 1 / 2"
    by linarith
  then show ?thesis
  proof cases
    case lo
    with r have "rne y = f" by simp
    with a lo show ?thesis by simp
  next
    case hi
    with r have "rne y = f + 1" by simp
    then have "of_int (rne y) = (of_int f :: real) + 1" by simp
    with a hi show ?thesis by linarith
  next
    case tie
    with r have "rne y = f \<or> rne y = f + 1" by simp
    then have "of_int (rne y) = (of_int f :: real) \<or> of_int (rne y) = (of_int f :: real) + 1"
      by auto
    with tie show ?thesis by auto
  qed
qed




lemma binade:
  assumes "0 < x"
  shows "2 powr of_int \<lfloor>log 2 x\<rfloor> \<le> x" and "x < 2 powr (of_int \<lfloor>log 2 x\<rfloor> + 1)"
proof -
  have "of_int \<lfloor>log 2 x\<rfloor> \<le> log 2 x" by (rule of_int_floor_le)
  then show "2 powr of_int \<lfloor>log 2 x\<rfloor> \<le> x"
    using le_log_iff [of 2 x "of_int \<lfloor>log 2 x\<rfloor>"] assms by simp
  have "log 2 x < of_int \<lfloor>log 2 x\<rfloor> + 1" by linarith
  then show "x < 2 powr (of_int \<lfloor>log 2 x\<rfloor> + 1)"
    using log_less_iff [of 2 x "of_int \<lfloor>log 2 x\<rfloor> + 1"] assms by simp
qed


lemma fl_zero: "fl 0 = 0"
  by (simp add: fl_def)


lemma fl_pos:
  assumes "0 < x"
  shows "fl x = of_int (rne (x / 2 powr (of_int \<lfloor>log 2 x\<rfloor> - 52))) * 2 powr (of_int \<lfloor>log 2 x\<rfloor> - 52)"
  using assms by (simp add: fl_def Let_def)


text \<open>For a positive \<open>x\<close>: the unit in the last place and the scaled significand.\<close>

lemma ulp_facts:
  assumes x: "0 < x" and q_def: "q = 2 powr (of_int \<lfloor>log 2 x\<rfloor> - 52)"
  shows "0 < q" and "2 ^ 52 * q \<le> x" and "x < 2 ^ 53 * q"
    and "2 ^ 52 * q = 2 powr of_int \<lfloor>log 2 x\<rfloor>"
    and "2 ^ 53 * q = 2 powr (of_int \<lfloor>log 2 x\<rfloor> + 1)"
proof -
  define E :: real where "E = 2 powr of_int \<lfloor>log 2 x\<rfloor>"
  have E: "0 < E" by (simp add: E_def)
  have p52: "(2::real) powr 52 = 2 ^ 52"
    by (rule powr_numeral) simp
  have q: "q = E / 2 ^ 52"
    unfolding q_def E_def powr_diff p52 ..
  show "0 < q" by (simp add: q_def)
  show a: "2 ^ 52 * q = 2 powr of_int \<lfloor>log 2 x\<rfloor>"
    unfolding q E_def [symmetric] by simp
  have E2: "2 powr (of_int \<lfloor>log 2 x\<rfloor> + 1) = E * 2"
    unfolding E_def by (simp add: powr_add)
  have "(2::real) ^ 53 * q = 2 * (2 ^ 52 * q)" by simp
  also have "\<dots> = E * 2" unfolding a E_def by simp
  finally show b: "2 ^ 53 * q = 2 powr (of_int \<lfloor>log 2 x\<rfloor> + 1)"
    unfolding E2 .
  show "2 ^ 52 * q \<le> x" unfolding a by (rule binade(1) [OF x])
  show "x < 2 ^ 53 * q" unfolding b by (rule binade(2) [OF x])
qed




text \<open>The rounding error is at most half a unit in the last place, hence relative 2^-53.\<close>

lemma fl_error:
  assumes "0 \<le> x"
  shows "\<bar>fl x - x\<bar> \<le> x / 2 ^ 53"
proof (cases "x = 0")
  case True
  then show ?thesis by (simp add: fl_zero)
next
  case False
  with assms have x: "0 < x" by simp
  define q :: real where "q = 2 powr (of_int \<lfloor>log 2 x\<rfloor> - 52)"
  note u = ulp_facts [OF x q_def]
  define m :: real where "m = of_int (rne (x / q))"
  have f: "fl x = m * q"
    unfolding fl_pos [OF x] m_def q_def ..
  have "fl x - x = (m - x / q) * q"
    unfolding f using u(1) by (simp add: algebra_simps)
  then have "\<bar>fl x - x\<bar> = \<bar>m - x / q\<bar> * q"
    using u(1) by (simp add: abs_mult)
  also have "\<dots> \<le> (1 / 2) * q"
    unfolding m_def using rne_error [of "x / q"] u(1) by (intro mult_right_mono) simp_all
  also have "\<dots> \<le> x / 2 ^ 53"
  proof -
    have "(1 / 2) * q = (2 ^ 52 * q) / 2 ^ 53" by simp
    also have "\<dots> \<le> x / 2 ^ 53"
      using u(2) by (intro divide_right_mono) simp_all
    finally show ?thesis .
  qed
  finally show ?thesis .
qed


lemma fl_lower: "0 \<le> x \<Longrightarrow> x * (1 - 1 / 2 ^ 53) \<le> fl x"
proof -
  assume "0 \<le> x"
  from fl_error [OF this] have "x - x / 2 ^ 53 \<le> fl x" by linarith
  moreover have "x * (1 - 1 / 2 ^ 53) = x - x / 2 ^ 53" by (simp add: right_diff_distrib)
  ultimately show ?thesis by simp
qed















lemma math_pi_pos: "0 < math_pi"
proof -
  have "pi * (1 - 1 / 2 ^ 53) \<le> fl pi" by (rule fl_lower) simp
  moreover have "0 < pi * (1 - 1 / 2 ^ 53)" by (intro mult_pos_pos) simp_all
  ultimately show ?thesis unfolding math_pi_def by linarith
qed













lemma bound_2: "uround ^ 2 \<le> 1 + 1 / 2 ^ 50"
  by (simp add: uround_def power_divide)



















lemma get_lr_flat: "warmup_iters c = k \<Longrightarrow> lr_decay_iters c = k \<Longrightarrow> get_lr c k = Inl ZeroDivisionError"
  by (simp add: get_lr_def)

lemma get_lr_past_warmup_total:
  assumes "warmup_iters c \<le> lr_decay_iters c"
  shows "(\<forall>it. warmup_iters c \<le> it \<longrightarrow> (\<exists>r. get_lr c it = Inr r)) \<longleftrightarrow>
         warmup_iters c < lr_decay_iters c"
proof
  assume total: "\<forall>it. warmup_iters c \<le> it \<longrightarrow> (\<exists>r. get_lr c it = Inr r)"
  show "warmup_iters c < lr_decay_iters c"
  proof (rule ccontr)
    assume "\<not> warmup_iters c < lr_decay_iters c"
    with assms have "lr_decay_iters c = warmup_iters c" by simp
    then have "get_lr c (warmup_iters c) = Inl ZeroDivisionError"
      by (intro get_lr_flat) simp_all
    moreover from total obtain r where "get_lr c (warmup_iters c) = Inr r" by blast
    ultimately show False by simp
  qed
next
  assume strict: "warmup_iters c < lr_decay_iters c"
  show "\<forall>it. warmup_iters c \<le> it \<longrightarrow> (\<exists>r. get_lr c it = Inr r)"
  proof (intro allI impI)
    fix it
    assume w: "warmup_iters c \<le> it"
    show "\<exists>r. get_lr c it = Inr r"
    proof (cases "lr_decay_iters c < it")
      case True
      with w show ?thesis using get_lr_plateau [of c it] by blast
    next
      case False
      then have "it \<le> lr_decay_iters c" by simp
      moreover from strict have "warmup_iters c \<noteq> lr_decay_iters c" by simp
      ultimately show ?thesis using get_lr_cosine [OF w] by blast
    qed
  qed
qed

text \<open>
  Claim C9. For a configuration with \<open>warmup_iters = lr_decay_iters = k\<close>, evaluating the
  schedule at \<open>k\<close> divides by zero and fails with \<open>ZeroDivisionError\<close>; and under
  \<open>warmup_iters \<le> lr_decay_iters\<close> the schedule returns a rate at every iteration from
  \<open>warmup_iters\<close> on exactly when \<open>warmup_iters < lr_decay_iters\<close>.
\<close>

theorem get_lr_zero_division:
  "(warmup_iters c = k \<and> lr_decay_iters c = k \<longrightarrow> get_lr c k = Inl ZeroDivisionError) \<and>
   (warmup_iters c \<le> lr_decay_iters c \<longrightarrow>
      ((\<forall>it. warmup_iters c \<le> it \<longrightarrow> (\<exists>r. get_lr c it = Inr r)) \<longleftrightarrow>
       warmup_iters c < lr_decay_iters c))"
  using get_lr_flat [of c k] get_lr_past_warmup_total [of c] by blast

theorem get_lr_zero_division_witness:
  "warmup_iters flat_config = 5 \<and> lr_decay_iters flat_config = 5 \<and>
   get_lr flat_config 5 = Inl ZeroDivisionError \<and>
   warmup_iters flat_config \<le> lr_decay_iters flat_config \<and>
   \<not> warmup_iters flat_config < lr_decay_iters flat_config \<and>
   \<not> (\<forall>it. warmup_iters flat_config \<le> it \<longrightarrow> (\<exists>r. get_lr flat_config it = Inr r))"
proof -
  have h: "warmup_iters flat_config = 5" "lr_decay_iters flat_config = 5"
    by (simp_all add: flat_config_def default_config_def)
  show ?thesis
    using h get_lr_zero_division [of flat_config 5] by simp
qed

subsection \<open>Batch sampling\<close>

lemma randint_draws:
  assumes "0 < high" "0 \<le> n"
  shows "\<exists>ix g'. randint high n g = (Inr ix, g') \<and> length ix = nat n \<and>
           list_all (\<lambda>i. 0 \<le> i \<and> i < high) ix"
proof -
  let ?ix = "map (\<lambda>k. int (rng_raw g (rng_pos g + k) mod nat high)) [0..<nat n]"
  have r: "randint high n g = (Inr ?ix, g\<lparr>rng_pos := rng_pos g + nat n\<rparr>)"
    using assms by (simp add: randint_def)
  have b: "list_all (\<lambda>i. 0 \<le> i \<and> i < high) ?ix"
  proof -
    have "int (m mod nat high) < high" for m
    proof -
      from assms(1) have "0 < nat high" by simp
      then have "m mod nat high < nat high" by (rule mod_less_divisor)
      then show ?thesis using assms(1) by linarith
    qed
    then show ?thesis by (simp add: list_all_iff)
  qed
  show ?thesis using r b by simp
qed

lemma py_slice_window:
  assumes "0 \<le> i" "0 \<le> s" "i + s \<le> int (length xs)"
  shows "py_slice xs i (i + s) = take (nat s) (drop (nat i) xs)"
proof -
  from assms have "min i (int (length xs)) = i" "min (i + s) (int (length xs)) = i + s"
    by simp_all
  with assms show ?thesis
    by (simp add: py_slice_def Let_def)
qed

lemma window_length:
  assumes "0 \<le> i" "0 \<le> s" "i + s \<le> int (length xs)"
  shows "length (take (nat s) (drop (nat i) xs)) = nat s"
  using assms by simp

lemma window_nth:
  assumes "0 \<le> i" "0 \<le> s" "i + s \<le> int (length xs)" "j < nat s"
  shows "take (nat s) (drop (nat i) xs) ! j = xs ! (nat i + j)"
  using assms by simp

lemma stack_uniform:
  assumes "rows \<noteq> []" "list_all (\<lambda>q. length q = m) rows"
  shows "stack rows = Inr rows"
  using assms by (cases rows) (simp_all add: stack_def list_all_iff)

lemma stack_empty: "stack [] = Inl RuntimeError"
  by (simp add: stack_def)

lemma get_batch_of_data:
  assumes "(if split = ''train''
            then memmap bins (os_path_join (data_dir c) ''train.bin'')
            else memmap bins (os_path_join (data_dir c) ''val.bin'')) = Inr data"
    and "randint (int (length data) - seq_length c) (batch_size c) g = (Inr ix, g')"
    and "stack (map (\<lambda>i. map uint (py_slice data i (i + seq_length c))) ix) = Inr x"
    and "stack (map (\<lambda>i. map uint (py_slice data (i + 1) (i + 1 + seq_length c))) ix) = Inr y"
  shows "get_batch c bins split g = (Inr (x, y), g')"
  using assms unfolding get_batch_def by simp

lemma get_batch_windows_aux:
  assumes src: "(if split = ''train''
            then memmap bins (os_path_join (data_dir c) ''train.bin'')
            else memmap bins (os_path_join (data_dir c) ''val.bin'')) = Inr data"
    and len: "seq_length c + 1 \<le> int (length data)"
    and seq: "0 \<le> seq_length c"
    and bs: "0 < batch_size c"
  shows "\<exists>ix g'.
           randint (int (length data) - seq_length c) (batch_size c) g = (Inr ix, g') \<and>
           length ix = nat (batch_size c) \<and>
           get_batch c bins split g =
             (Inr (map (\<lambda>i. map uint (py_slice data i (i + seq_length c))) ix,
                   map (\<lambda>i. map uint (py_slice data (i + 1) (i + 1 + seq_length c))) ix), g') \<and>
           list_all (\<lambda>i. 0 \<le> i \<and> i \<le> int (length data) - seq_length c - 1 \<and>
                length (py_slice data i (i + seq_length c)) = nat (seq_length c) \<and>
                length (py_slice data (i + 1) (i + 1 + seq_length c)) = nat (seq_length c) \<and>
                list_all (\<lambda>j. py_slice data i (i + seq_length c) ! j = data ! (nat i + j) \<and>
                               py_slice data (i + 1) (i + 1 + seq_length c) ! j = data ! (nat i + j + 1))
                  [0..<nat (seq_length c)]) ix"
proof -
  let ?S = "seq_length c"
  let ?L = "int (length data)"
  from len have high: "0 < ?L - ?S" by simp
  from bs have n: "0 \<le> batch_size c" by simp
  from randint_draws [OF high n, of g] obtain ix g' where
    r: "randint (?L - ?S) (batch_size c) g = (Inr ix, g')" and
    l: "length ix = nat (batch_size c)" and
    b: "list_all (\<lambda>i. 0 \<le> i \<and> i < ?L - ?S) ix"
    by blast
  from l bs have ne: "ix \<noteq> []" by auto
  have row: "0 \<le> i \<and> i \<le> ?L - ?S - 1 \<and>
       length (py_slice data i (i + ?S)) = nat ?S \<and>
       length (py_slice data (i + 1) (i + 1 + ?S)) = nat ?S \<and>
       list_all (\<lambda>j. py_slice data i (i + ?S) ! j = data ! (nat i + j) \<and>
                      py_slice data (i + 1) (i + 1 + ?S) ! j = data ! (nat i + j + 1))
         [0..<nat ?S]" if "i \<in> set ix" for i
  proof -
    from that b have i: "0 \<le> i" "i < ?L - ?S" by (simp_all add: list_all_iff)
    then have i1: "0 \<le> i + 1" "i + ?S \<le> ?L" "i + 1 + ?S \<le> ?L" by simp_all
    have px: "py_slice data i (i + ?S) = take (nat ?S) (drop (nat i) data)"
      by (rule py_slice_window [OF i(1) seq i1(2)])
    have py: "py_slice data (i + 1) (i + 1 + ?S) = take (nat ?S) (drop (nat (i + 1)) data)"
      by (rule py_slice_window [OF i1(1) seq i1(3)])
    have lx: "length (py_slice data i (i + ?S)) = nat ?S"
      unfolding px by (rule window_length [OF i(1) seq i1(2)])
    have ly: "length (py_slice data (i + 1) (i + 1 + ?S)) = nat ?S"
      unfolding py by (rule window_length [OF i1(1) seq i1(3)])
    have nx: "py_slice data i (i + ?S) ! j = data ! (nat i + j)" if "j < nat ?S" for j
      unfolding px by (rule window_nth [OF i(1) seq i1(2) that])
    have ny: "py_slice data (i + 1) (i + 1 + ?S) ! j = data ! (nat i + j + 1)" if "j < nat ?S" for j
    proof -
      have "take (nat ?S) (drop (nat (i + 1)) data) ! j = data ! (nat (i + 1) + j)"
        by (rule window_nth [OF i1(1) seq i1(3) that])
      moreover have "nat (i + 1) + j = nat i + j + 1" using i(1) by simp
      ultimately show ?thesis unfolding py by simp
    qed
    show ?thesis
      using i lx ly nx ny by (simp add: list_all_iff)
  qed
  have ux: "list_all (\<lambda>q. length q = nat ?S) (map (\<lambda>i. map uint (py_slice data i (i + ?S))) ix)"
    using row by (simp add: list_all_iff)
  have uy: "list_all (\<lambda>q. length q = nat ?S)
              (map (\<lambda>i. map uint (py_slice data (i + 1) (i + 1 + ?S))) ix)"
    using row by (simp add: list_all_iff)
  have sx: "stack (map (\<lambda>i. map uint (py_slice data i (i + ?S))) ix) =
              Inr (map (\<lambda>i. map uint (py_slice data i (i + ?S))) ix)"
    using ne by (intro stack_uniform [OF _ ux]) simp
  have sy: "stack (map (\<lambda>i. map uint (py_slice data (i + 1) (i + 1 + ?S))) ix) =
              Inr (map (\<lambda>i. map uint (py_slice data (i + 1) (i + 1 + ?S))) ix)"
    using ne by (intro stack_uniform [OF _ uy]) simp
  have gb: "get_batch c bins split g =
             (Inr (map (\<lambda>i. map uint (py_slice data i (i + ?S))) ix,
                   map (\<lambda>i. map uint (py_slice data (i + 1) (i + 1 + ?S))) ix), g')"
    by (rule get_batch_of_data [OF src r sx sy])
  have all: "list_all (\<lambda>i. 0 \<le> i \<and> i \<le> ?L - ?S - 1 \<and>
                length (py_slice data i (i + ?S)) = nat ?S \<and>
                length (py_slice data (i + 1) (i + 1 + ?S)) = nat ?S \<and>
                list_all (\<lambda>j. py_slice data i (i + ?S) ! j = data ! (nat i + j) \<and>
                               py_slice data (i + 1) (i + 1 + ?S) ! j = data ! (nat i + j + 1))
                  [0..<nat ?S]) ix"
    using row unfolding list_all_iff [of _ ix] by blast
  show ?thesis
    using r l gb all by blast
qed

lemma tiny_src:
  "(if ''train'' = ''train''
    then memmap tiny_bins (os_path_join (data_dir tiny_config) ''train.bin'')
    else memmap tiny_bins (os_path_join (data_dir tiny_config) ''val.bin'')) = Inr tiny_corpus"
  by (simp add: memmap_def os_path_join_def path_join_def tiny_bins_def tiny_config_def tiny_corpus_def)

lemma get_batch_windows_pos:
  assumes src: "(if split = ''train''
            then memmap bins (os_path_join (data_dir c) ''train.bin'')
            else memmap bins (os_path_join (data_dir c) ''val.bin'')) = Inr data"
    and len: "seq_length c + 1 \<le> int (length data)"
    and seq: "0 \<le> seq_length c"
    and bs: "0 < batch_size c"
  shows "\<exists>ix x y g'.
           randint (int (length data) - seq_length c) (batch_size c) g = (Inr ix, g') \<and>
           get_batch c bins split g = (Inr (x, y), g') \<and>
           length ix = nat (batch_size c) \<and> length x = nat (batch_size c) \<and>
           length y = nat (batch_size c) \<and>
           (\<forall>k < nat (batch_size c).
              0 \<le> ix ! k \<and> ix ! k \<le> int (length data) - seq_length c - 1 \<and>
              x ! k = map uint (py_slice data (ix ! k) (ix ! k + seq_length c)) \<and>
              y ! k = map uint (py_slice data (ix ! k + 1) (ix ! k + 1 + seq_length c)) \<and>
              length (x ! k) = nat (seq_length c) \<and> length (y ! k) = nat (seq_length c) \<and>
              (\<forall>j < nat (seq_length c).
                 x ! k ! j = uint (data ! (nat (ix ! k) + j)) \<and>
                 y ! k ! j = uint (data ! (nat (ix ! k) + j + 1))))"
proof -
  let ?S = "seq_length c"
  let ?X = "\<lambda>i. map uint (py_slice data i (i + ?S))"
  let ?Y = "\<lambda>i. map uint (py_slice data (i + 1) (i + 1 + ?S))"
  from get_batch_windows_aux [OF src len seq bs, of g] obtain ix g' where
    r: "randint (int (length data) - ?S) (batch_size c) g = (Inr ix, g')" and
    l: "length ix = nat (batch_size c)" and
    gb: "get_batch c bins split g = (Inr (map ?X ix, map ?Y ix), g')" and
    all: "list_all (\<lambda>i. 0 \<le> i \<and> i \<le> int (length data) - ?S - 1 \<and>
                length (py_slice data i (i + ?S)) = nat ?S \<and>
                length (py_slice data (i + 1) (i + 1 + ?S)) = nat ?S \<and>
                list_all (\<lambda>j. py_slice data i (i + ?S) ! j = data ! (nat i + j) \<and>
                               py_slice data (i + 1) (i + 1 + ?S) ! j = data ! (nat i + j + 1))
                  [0..<nat ?S]) ix"
    by blast
  have rows: "0 \<le> ix ! k \<and> ix ! k \<le> int (length data) - ?S - 1 \<and>
              map ?X ix ! k = ?X (ix ! k) \<and> map ?Y ix ! k = ?Y (ix ! k) \<and>
              length (map ?X ix ! k) = nat ?S \<and> length (map ?Y ix ! k) = nat ?S \<and>
              (\<forall>j < nat ?S.
                 map ?X ix ! k ! j = uint (data ! (nat (ix ! k) + j)) \<and>
                 map ?Y ix ! k ! j = uint (data ! (nat (ix ! k) + j + 1)))"
    if k: "k < nat (batch_size c)" for k
  proof -
    from k l have kl: "k < length ix" by simp
    then have mem: "ix ! k \<in> set ix" by simp
    from all mem have
      a: "0 \<le> ix ! k" "ix ! k \<le> int (length data) - ?S - 1" and
      lx: "length (py_slice data (ix ! k) (ix ! k + ?S)) = nat ?S" and
      ly: "length (py_slice data (ix ! k + 1) (ix ! k + 1 + ?S)) = nat ?S" and
      n: "\<forall>j \<in> set [0..<nat ?S].
            py_slice data (ix ! k) (ix ! k + ?S) ! j = data ! (nat (ix ! k) + j) \<and>
            py_slice data (ix ! k + 1) (ix ! k + 1 + ?S) ! j = data ! (nat (ix ! k) + j + 1)"
      unfolding list_all_iff by blast+
    have mx: "map ?X ix ! k = ?X (ix ! k)" and my: "map ?Y ix ! k = ?Y (ix ! k)"
      using kl by simp_all
    have el: "map ?X ix ! k ! j = uint (data ! (nat (ix ! k) + j)) \<and>
              map ?Y ix ! k ! j = uint (data ! (nat (ix ! k) + j + 1))" if "j < nat ?S" for j
      using that n lx ly unfolding mx my by simp
    show ?thesis
      using a mx my lx ly el by simp
  qed
  have lxy: "length (map ?X ix) = nat (batch_size c)" "length (map ?Y ix) = nat (batch_size c)"
    using l by simp_all
  show ?thesis
    apply (rule exI [of _ ix])
    apply (rule exI [of _ "map ?X ix"])
    apply (rule exI [of _ "map ?Y ix"])
    apply (rule exI [of _ g'])
    apply (intro conjI allI impI)
    using r gb l lxy rows apply blast+
    done
qed

lemma get_batch_no_rows:
  assumes src: "(if split = ''train''
            then memmap bins (os_path_join (data_dir c) ''train.bin'')
            else memmap bins (os_path_join (data_dir c) ''val.bin'')) = Inr data"
    and bs: "batch_size c \<le> 0"
  shows "fst (get_batch c bins split g) = Inl RuntimeError"
proof (cases "batch_size c < 0")
  case True
  then have "randint (int (length data) - seq_length c) (batch_size c) g = (Inl RuntimeError, g)"
    by (simp add: randint_def)
  then show ?thesis
    unfolding get_batch_def src by simp
next
  case False
  with bs have z: "batch_size c = 0" by simp
  show ?thesis
  proof (cases "int (length data) - seq_length c \<le> 0")
    case True
    then have "randint (int (length data) - seq_length c) (batch_size c) g = (Inl RuntimeError, g)"
      by (simp add: randint_def)
    then show ?thesis
      unfolding get_batch_def src by simp
  next
    case False
    then have "randint (int (length data) - seq_length c) (batch_size c) g = (Inr [], g)"
      using z by (simp add: randint_def)
    then show ?thesis
      unfolding get_batch_def src by (simp add: stack_empty)
  qed
qed

text \<open>
  Claim C5. For a corpus of length \<open>L\<close> and a sequence length \<open>S \<ge> 0\<close> with
  \<open>L \<ge> S + 1\<close>, a call either has no row to draw (a batch size that is not positive,
  where it raises) or returns a batch of \<open>batch_size\<close> rows; every drawn start index
  \<open>i\<close> satisfies \<open>0 \<le> i \<le> L - S - 1\<close>; the input row of \<open>i\<close> is \<open>corpus[i : i+S]\<close>,
  the target row is \<open>corpus[i+1 : i+1+S]\<close>, both of length \<open>S\<close>, and at every position
  the target is the token that follows the input in the corpus.
\<close>

theorem get_batch_windows:
  assumes src: "(if split = ''train''
            then memmap bins (os_path_join (data_dir c) ''train.bin'')
            else memmap bins (os_path_join (data_dir c) ''val.bin'')) = Inr data"
    and len: "seq_length c + 1 \<le> int (length data)"
    and seq: "0 \<le> seq_length c"
  shows "(batch_size c \<le> 0 \<and> fst (get_batch c bins split g) = Inl RuntimeError) \<or>
         (0 < batch_size c \<and>
          (\<exists>ix x y g'.
             randint (int (length data) - seq_length c) (batch_size c) g = (Inr ix, g') \<and>
             get_batch c bins split g = (Inr (x, y), g') \<and>
             length ix = nat (batch_size c) \<and> length x = nat (batch_size c) \<and>
             length y = nat (batch_size c) \<and>
             (\<forall>k < nat (batch_size c).
                0 \<le> ix ! k \<and> ix ! k \<le> int (length data) - seq_length c - 1 \<and>
                x ! k = map uint (py_slice data (ix ! k) (ix ! k + seq_length c)) \<and>
                y ! k = map uint (py_slice data (ix ! k + 1) (ix ! k + 1 + seq_length c)) \<and>
                length (x ! k) = nat (seq_length c) \<and> length (y ! k) = nat (seq_length c) \<and>
                (\<forall>j < nat (seq_length c).
                   x ! k ! j = uint (data ! (nat (ix ! k) + j)) \<and>
                   y ! k ! j = uint (data ! (nat (ix ! k) + j + 1))))))"
proof (cases "0 < batch_size c")
  case True
  then show ?thesis
    using get_batch_windows_pos [OF src len seq True, of g] by blast
next
  case False
  then have "batch_size c \<le> 0" by simp
  then show ?thesis
    using get_batch_no_rows [OF src, of g] by blast
qed

theorem get_batch_windows_witness:
  "(if ''train'' = ''train''
    then memmap tiny_bins (os_path_join (data_dir tiny_config) ''train.bin'')
    else memmap tiny_bins (os_path_join (data_dir tiny_config) ''val.bin'')) = Inr tiny_corpus \<and>
   seq_length tiny_config + 1 \<le> int (length tiny_corpus) \<and>
   0 \<le> seq_length tiny_config \<and> 0 < batch_size tiny_config \<and>
   (\<exists>ix x y g'.
      randint (int (length tiny_corpus) - seq_length tiny_config) (batch_size tiny_config) count_rng =
        (Inr ix, g') \<and>
      get_batch tiny_config tiny_bins ''train'' count_rng = (Inr (x, y), g') \<and>
      length ix = nat (batch_size tiny_config) \<and> length x = nat (batch_size tiny_config) \<and>
      length y = nat (batch_size tiny_config) \<and>
      (\<forall>k < nat (batch_size tiny_config).
         0 \<le> ix ! k \<and> ix ! k \<le> int (length tiny_corpus) - seq_length tiny_config - 1 \<and>
         x ! k = map uint (py_slice tiny_corpus (ix ! k) (ix ! k + seq_length tiny_config)) \<and>
         y ! k = map uint (py_slice tiny_corpus (ix ! k + 1) (ix ! k + 1 + seq_length tiny_config)) \<and>
         length (x ! k) = nat (seq_length tiny_config) \<and>
         length (y ! k) = nat (seq_length tiny_config) \<and>
         (\<forall>j < nat (seq_length tiny_config).
            x ! k ! j = uint (tiny_corpus ! (nat (ix ! k) + j)) \<and>
            y ! k ! j = uint (tiny_corpus ! (nat (ix ! k) + j + 1))))) \<and>
   fst (get_batch tiny_config tiny_bins ''train'' count_rng) =
     Inr ([[11, 12], [10, 11], [13, 14]], [[12, 13], [11, 12], [14, 15]])"
proof -
  have h: "seq_length tiny_config + 1 \<le> int (length tiny_corpus)"
    "0 \<le> seq_length tiny_config"
    by (simp_all add: tiny_config_def tiny_corpus_def)
  have b: "0 < batch_size tiny_config" "\<not> batch_size tiny_config \<le> 0"
    by (simp_all add: tiny_config_def)
  have v: "fst (get_batch tiny_config tiny_bins ''train'' count_rng) =
     Inr ([[11, 12], [10, 11], [13, 14]], [[12, 13], [11, 12], [14, 15]])"
    by (simp add: get_batch_def memmap_def os_path_join_def path_join_def tiny_bins_def tiny_config_def
        tiny_corpus_def default_config_def randint_def count_rng_def py_slice_def stack_def upt_rec)
  show ?thesis
    using tiny_src h b v get_batch_windows [OF tiny_src h, of count_rng] by blast
qed




subsection \<open>The optimizer builder\<close>

lemma update_fresh: "k \<notin> fst ` set d \<Longrightarrow> AList.update k v d = d @ [(k, v)]"
  by (induction d) auto

lemma foldl_update_distinct:
  "distinct (map fst (d @ named)) \<Longrightarrow>
     foldl (\<lambda>d (pn, p). AList.update pn p d) d named = d @ named"
proof (induction named arbitrary: d)
  case Nil
  then show ?case by simp
next
  case (Cons a named)
  obtain k v where a: "a = (k, v)" by (cases a)
  from Cons.prems a have "k \<notin> fst ` set d" by auto
  then have u: "AList.update k v d = d @ [(k, v)]" by (rule update_fresh)
  from Cons.prems a have "distinct (map fst ((d @ [(k, v)]) @ named))" by simp
  from Cons.IH [OF this] show ?case using a u by simp
qed

lemma param_dict_of_distinct: "distinct (map fst named) \<Longrightarrow> param_dict_of named = named"
  unfolding param_dict_of_def using foldl_update_distinct [of "[]" named] by simp

lemma filter_snd: "map snd (filter (\<lambda>(n, p). P p) xs) = filter P (map snd xs)"
  by (induction xs) auto

lemma configure_optimizers_groups:
  "param_groups (fst (configure_optimizers c fresh named)) =
     [\<lparr>pg_params = filter (\<lambda>p. 2 \<le> p_dim p)
                    (filter p_requires_grad (map snd (param_dict_of named))),
       pg_weight_decay = weight_decay c, pg_lr = learning_rate c, pg_betas = (beta1 c, beta2 c)\<rparr>,
      \<lparr>pg_params = filter (\<lambda>p. p_dim p < 2)
                    (filter p_requires_grad (map snd (param_dict_of named))),
       pg_weight_decay = Some 0, pg_lr = learning_rate c, pg_betas = (beta1 c, beta2 c)\<rparr>]"
  by (simp add: configure_optimizers_def AdamW_def Let_def filter_snd)

text \<open>
  Claim C6. The optimizer is built with exactly two parameter groups. With the (distinct)
  names of \<open>model.named_parameters()\<close>, the first group holds every trainable parameter
  of rank at least 2, in order, with the configured \<open>weight_decay\<close>; the second holds
  every trainable parameter of rank below 2 with weight decay 0.0; the groups are
  disjoint and their union is the set of trainable parameters.
\<close>

theorem configure_optimizers_partition:
  assumes "distinct (map fst named)"
  shows "\<exists>decay nodecay.
           param_groups (fst (configure_optimizers c fresh named)) = [decay, nodecay] \<and>
           pg_weight_decay decay = weight_decay c \<and>
           pg_weight_decay nodecay = Some 0 \<and>
           pg_params decay = filter (\<lambda>p. 2 \<le> p_dim p) (filter p_requires_grad (map snd named)) \<and>
           pg_params nodecay = filter (\<lambda>p. p_dim p < 2) (filter p_requires_grad (map snd named)) \<and>
           set (pg_params decay) \<inter> set (pg_params nodecay) = {} \<and>
           set (pg_params decay) \<union> set (pg_params nodecay) =
             {p \<in> snd ` set named. p_requires_grad p}"
proof -
  let ?T = "filter p_requires_grad (map snd named)"
  let ?d = "\<lparr>pg_params = filter (\<lambda>p. 2 \<le> p_dim p) ?T,
       pg_weight_decay = weight_decay c, pg_lr = learning_rate c, pg_betas = (beta1 c, beta2 c)\<rparr>"
  let ?n = "\<lparr>pg_params = filter (\<lambda>p. p_dim p < 2) ?T,
       pg_weight_decay = Some 0, pg_lr = learning_rate c, pg_betas = (beta1 c, beta2 c)\<rparr>"
  have g: "param_groups (fst (configure_optimizers c fresh named)) = [?d, ?n]"
    using configure_optimizers_groups [of c fresh named] param_dict_of_distinct [OF assms]
    by simp
  have disj: "set (pg_params ?d) \<inter> set (pg_params ?n) = {}"
    by auto
  have un: "set (pg_params ?d) \<union> set (pg_params ?n) = {p \<in> snd ` set named. p_requires_grad p}"
    by auto
  show ?thesis
    apply (rule exI [of _ ?d])
    apply (rule exI [of _ ?n])
    using g disj un apply simp
    done
qed

theorem configure_optimizers_partition_witness:
  "distinct (map fst gpt_params) \<and>
   (\<exists>decay nodecay.
      param_groups (fst (configure_optimizers default_config () gpt_params)) = [decay, nodecay] \<and>
      pg_weight_decay decay = weight_decay default_config \<and>
      pg_weight_decay nodecay = Some 0 \<and>
      pg_params decay =
        filter (\<lambda>p. 2 \<le> p_dim p) (filter p_requires_grad (map snd gpt_params)) \<and>
      pg_params nodecay =
        filter (\<lambda>p. p_dim p < 2) (filter p_requires_grad (map snd gpt_params)) \<and>
      set (pg_params decay) \<inter> set (pg_params nodecay) = {} \<and>
      set (pg_params decay) \<union> set (pg_params nodecay) =
        {p \<in> snd ` set gpt_params. p_requires_grad p}) \<and>
   map (map p_id \<circ> pg_params) (param_groups (fst (configure_optimizers default_config () gpt_params))) =
     [[0, 3], [2, 4]]"
proof -
  have h: "distinct (map fst gpt_params)"
    by (simp add: gpt_params_def)
  have v: "map (map p_id \<circ> pg_params)
             (param_groups (fst (configure_optimizers default_config () gpt_params))) =
           [[0, 3], [2, 4]]"
    by (simp add: configure_optimizers_def AdamW_def param_dict_of_def gpt_params_def Let_def)
  show ?thesis
    using h v configure_optimizers_partition [OF h, of default_config "()"] by blast
qed

subsection \<open>Loss estimation\<close>

lemma eval_batches_frame:
  "eval_batches c env split n s = (r, s') \<Longrightarrow> \<exists>g. s' = s\<lparr>gen := g\<rparr>"
proof (induction n arbitrary: s r s')
  case 0
  then have "s' = s\<lparr>gen := gen s\<rparr>" by simp
  then show ?case by blast
next
  case (Suc n)
  obtain b g where gb: "get_batch c (corpus_files env) split (gen s) = (b, g)"
    by (cases "get_batch c (corpus_files env) split (gen s)")
  show ?case
  proof (cases b)
    case (Inl e)
    with Suc.prems gb have "s' = s\<lparr>gen := g\<rparr>" by simp
    then show ?thesis by blast
  next
    case (Inr XY)
    show ?thesis
    proof (cases "forward env (weights (model s)) (training (model s)) XY")
      case (Inl e)
      with Suc.prems gb Inr have "s' = s\<lparr>gen := g\<rparr>" by simp
      then show ?thesis by blast
    next
      case fw: (Inr loss)
      obtain r1 s1 where rec: "eval_batches c env split n (s\<lparr>gen := g\<rparr>) = (r1, s1)"
        by (cases "eval_batches c env split n (s\<lparr>gen := g\<rparr>)")
      from Suc.IH [OF rec] obtain g1 where s1: "s1 = s\<lparr>gen := g\<rparr>\<lparr>gen := g1\<rparr>" by blast
      from Suc.prems gb Inr fw rec have "s' = s1"
        by (cases r1) simp_all
      with s1 have "s' = s\<lparr>gen := g1\<rparr>" by simp
      then show ?thesis by blast
    qed
  qed
qed

lemma estimate_split_frame:
  assumes "estimate_split c env split s = (r, s')"
  shows "\<exists>g. s' = s\<lparr>gen := g\<rparr>"
proof (cases "eval_iters c < 0")
  case True
  with assms have "s' = s\<lparr>gen := gen s\<rparr>" by (simp add: estimate_split_def)
  then show ?thesis by blast
next
  case False
  obtain r1 s1 where rec: "eval_batches c env split (nat (eval_iters c)) s = (r1, s1)"
    by (cases "eval_batches c env split (nat (eval_iters c)) s")
  from assms False rec have "s' = s1"
    by (cases r1) (simp_all add: estimate_split_def)
  with eval_batches_frame [OF rec] show ?thesis by simp
qed

lemma estimate_loss_state:
  assumes "estimate_loss c env s = (r, s')"
  shows "model s' = (model s)\<lparr>training := \<not> isl r\<rparr> \<and> ckpt_files s' = ckpt_files s \<and>
         dirs s' = dirs s \<and> saves s' = saves s \<and> pushed s' = pushed s \<and> console s' = console s"
proof -
  let ?s0 = "s\<lparr>model := (model s)\<lparr>training := False\<rparr>\<rparr>"
  obtain r1 s1 where a: "estimate_split c env ''train'' ?s0 = (r1, s1)"
    by (cases "estimate_split c env ''train'' ?s0")
  from estimate_split_frame [OF a] obtain g1 where s1: "s1 = ?s0\<lparr>gen := g1\<rparr>" by blast
  show ?thesis
  proof (cases r1)
    case (Inl e)
    with assms a have "r = Inl e" "s' = s1" by (simp_all add: estimate_loss_def Let_def)
    with s1 show ?thesis by simp
  next
    case tr: (Inr train_mean)
    obtain r2 s2 where b: "estimate_split c env ''val'' s1 = (r2, s2)"
      by (cases "estimate_split c env ''val'' s1")
    from estimate_split_frame [OF b] obtain g2 where s2: "s2 = s1\<lparr>gen := g2\<rparr>" by blast
    show ?thesis
    proof (cases r2)
      case (Inl e)
      with assms a tr b have "r = Inl e" "s' = s2" by (simp_all add: estimate_loss_def Let_def)
      with s1 s2 show ?thesis by simp
    next
      case (Inr val_mean)
      with assms a tr b have "r = Inr (train_mean, val_mean)"
        "s' = s2\<lparr>model := (model s2)\<lparr>training := True\<rparr>\<rparr>"
        by (simp_all add: estimate_loss_def Let_def)
      with s1 s2 show ?thesis by simp
    qed
  qed
qed

lemma eval_batches_eval_mode:
  "\<not> training (model s) \<Longrightarrow>
     eval_batches c (env\<lparr>forward := \<lambda>w m. forward env w False\<rparr>) split n s =
     eval_batches c env split n s"
proof (induction n arbitrary: s)
  case 0
  then show ?case by simp
next
  case (Suc n)
  have "\<not> training (model (s\<lparr>gen := g\<rparr>))" for g using Suc.prems by simp
  from Suc.IH [OF this] Suc.prems show ?case
    by (simp split: prod.splits sum.splits)
qed

lemma estimate_split_eval_mode:
  "\<not> training (model s) \<Longrightarrow>
     estimate_split c (env\<lparr>forward := \<lambda>w m. forward env w False\<rparr>) split s =
     estimate_split c env split s"
  by (simp add: estimate_split_def eval_batches_eval_mode)

lemma estimate_loss_eval_mode:
  "estimate_loss c (env\<lparr>forward := \<lambda>w m. forward env w False\<rparr>) s = estimate_loss c env s"
proof -
  let ?env = "env\<lparr>forward := \<lambda>w m. forward env w False\<rparr>"
  let ?s0 = "s\<lparr>model := (model s)\<lparr>training := False\<rparr>\<rparr>"
  have a: "estimate_split c ?env ''train'' ?s0 = estimate_split c env ''train'' ?s0"
    by (rule estimate_split_eval_mode) simp
  have b: "estimate_split c ?env ''val'' s1 = estimate_split c env ''val'' s1"
    if "estimate_split c env ''train'' ?s0 = (r1, s1)" for r1 s1
  proof -
    from estimate_split_frame [OF that] obtain g where "s1 = ?s0\<lparr>gen := g\<rparr>" by blast
    then have "\<not> training (model s1)" by simp
    then show ?thesis by (rule estimate_split_eval_mode)
  qed
  show ?thesis
    unfolding estimate_loss_def Let_def a
    by (auto split: prod.splits sum.splits simp: b)
qed

text \<open>
  Claim C7, as amended. \<open>estimate_loss\<close> runs every forward pass in inference mode (it
  gives the same outcome when the forward pass is replaced by its inference-mode
  behaviour), leaves the weights alone, and ends with the model in training mode when it
  returns; when it raises, the model is left in inference mode.
\<close>

theorem estimate_loss_mode:
  assumes "estimate_loss c env s = (r, s')"
  shows "(case r of Inl e \<Rightarrow> \<not> training (model s') | Inr out \<Rightarrow> training (model s')) \<and>
         weights (model s') = weights (model s) \<and>
         estimate_loss c (env\<lparr>forward := \<lambda>w m. forward env w False\<rparr>) s = (r, s')"
proof -
  note s' = estimate_loss_state [OF assms]
  have m: "case r of Inl e \<Rightarrow> \<not> training (model s') | Inr out \<Rightarrow> training (model s')"
    using s' by (cases r) simp_all
  have w: "weights (model s') = weights (model s)"
    using s' by simp
  show ?thesis
    using m w assms estimate_loss_eval_mode [of c env s] by simp
qed

lemmas est_defs =
  estimate_loss_def estimate_split_def tensor_mean_def
  get_batch_def memmap_def os_path_join_def path_join_def randint_def py_slice_def stack_def
  run_config_def run_env_def run_state_def default_config_def no_data_env_def

theorem estimate_loss_mode_witness:
  "fst (estimate_loss run_config run_env run_state) = Inr (Some 3, Some 3) \<and>
   training (model (snd (estimate_loss run_config run_env run_state))) \<and>
   fst (estimate_loss run_config no_data_env run_state) = Inl FileNotFoundError \<and>
   \<not> training (model (snd (estimate_loss run_config no_data_env run_state)))"
proof -
  have a: "fst (estimate_loss run_config run_env run_state) = Inr (Some 3, Some 3)"
    by (simp add: est_defs One_nat_def upt_rec)
  have b: "fst (estimate_loss run_config no_data_env run_state) = Inl FileNotFoundError"
    by (simp add: est_defs One_nat_def upt_rec)
  have pa: "estimate_loss run_config run_env run_state =
     (fst (estimate_loss run_config run_env run_state), snd (estimate_loss run_config run_env run_state))"
    by simp
  have pb: "estimate_loss run_config no_data_env run_state =
     (fst (estimate_loss run_config no_data_env run_state),
      snd (estimate_loss run_config no_data_env run_state))"
    by simp
  show ?thesis
    using a b estimate_loss_mode [OF pa] estimate_loss_mode [OF pb] by simp
qed

text \<open>
  The claim as stated fails: with the training file missing, the first batch fetch raises
  and the call ends with the model, in training mode before, in inference mode.
\<close>

theorem estimate_loss_restore_counterexample:
  "training (model run_state) \<and>
   fst (estimate_loss run_config no_data_env run_state) = Inl FileNotFoundError \<and>
   \<not> training (model (snd (estimate_loss run_config no_data_env run_state)))"
  by (simp add: est_defs One_nat_def upt_rec)

subsection \<open>Evaluation, metrics and checkpoint\<close>

lemma do_eval_log_frame:
  assumes "do_eval_log c env losses tps iter lr s = (r, s')"
  shows "model s' = model s \<and> ckpt_files s' = ckpt_files s \<and> dirs s' = dirs s \<and>
         saves s' = saves s \<and> console s' = console s"
  using assms by (auto simp: do_eval_log_def Let_def split: if_splits option.splits)

lemma do_eval_report_frame:
  assumes "do_eval_report c env losses tps tpi iter s = (r, s')"
  shows "model s' = model s \<and> ckpt_files s' = ckpt_files s \<and> dirs s' = dirs s \<and>
         saves s' = saves s \<and> pushed s' = pushed s"
  using assms by (auto simp: do_eval_report_def Let_def split: if_splits)

lemma do_eval_checkpoint_effect:
  assumes "do_eval_checkpoint c opt best losses iter s = (Inr b, s')"
  shows "(case snd losses of
            None \<Rightarrow> saves s' = saves s \<and> ckpt_files s' = ckpt_files s
          | Some v \<Rightarrow>
              if v < best \<and> 0 < iter
              then saves s' = saves s @
                     [(path_join (out_dir c) ''ckpt.pt'',
                       \<lparr>ck_model = weights (model s), ck_optimizer = opt, ck_iter_num = iter,
                         ck_best_val_loss = v\<rparr>)] \<and>
                   ckpt_files s' = (ckpt_files s)
                     (path_join (out_dir c) ''ckpt.pt'' \<mapsto>
                       \<lparr>ck_model = weights (model s), ck_optimizer = opt, ck_iter_num = iter,
                         ck_best_val_loss = v\<rparr>)
              else saves s' = saves s \<and> ckpt_files s' = ckpt_files s)"
  using assms
  by (auto simp: do_eval_checkpoint_def Let_def split: if_splits option.splits)

lemma do_eval_returns:
  assumes "do_eval c env opt best tps tpi iter lr s = (Inr u, s')"
  shows "\<exists>losses s1 s2 b s3.
           estimate_loss c env s = (Inr losses, s1) \<and>
           do_eval_log c env losses tps iter lr s1 = (Inr (), s2) \<and>
           do_eval_checkpoint c opt best losses iter s2 = (Inr b, s3) \<and>
           do_eval_report c env losses tps tpi iter s3 = (Inr u, s')"
  using assms unfolding do_eval_def
  by (auto split: prod.splits sum.splits)

lemma do_eval_completed:
  assumes "do_eval c env opt best tps tpi iter lr s = (Inr u, s')"
  shows "\<exists>train_loss val_loss s1.
           estimate_loss c env s = (Inr (train_loss, val_loss), s1) \<and>
           (case val_loss of
              None \<Rightarrow> saves s' = saves s \<and> ckpt_files s' = ckpt_files s
            | Some v \<Rightarrow>
                if v < best \<and> 0 < iter
                then saves s' = saves s @
                       [(path_join (out_dir c) ''ckpt.pt'',
                         \<lparr>ck_model = weights (model s), ck_optimizer = opt, ck_iter_num = iter,
                           ck_best_val_loss = v\<rparr>)] \<and>
                     ckpt_files s' = (ckpt_files s)
                       (path_join (out_dir c) ''ckpt.pt'' \<mapsto>
                         \<lparr>ck_model = weights (model s), ck_optimizer = opt, ck_iter_num = iter,
                           ck_best_val_loss = v\<rparr>)
                else saves s' = saves s \<and> ckpt_files s' = ckpt_files s)"
proof -
  from do_eval_returns [OF assms] obtain losses s1 s2 b s3 where
    e: "estimate_loss c env s = (Inr losses, s1)" and
    l: "do_eval_log c env losses tps iter lr s1 = (Inr (), s2)" and
    k: "do_eval_checkpoint c opt best losses iter s2 = (Inr b, s3)" and
    p: "do_eval_report c env losses tps tpi iter s3 = (Inr u, s')"
    by blast
  obtain train_loss val_loss where lo: "losses = (train_loss, val_loss)" by (cases losses)
  note f1 = estimate_loss_state [OF e]
  note f2 = do_eval_log_frame [OF l]
  note f3 = do_eval_checkpoint_effect [OF k]
  note f4 = do_eval_report_frame [OF p]
  have w: "weights (model s2) = weights (model s)" using f1 f2 by simp
  have sv: "saves s2 = saves s" "ckpt_files s2 = ckpt_files s" using f1 f2 by simp_all
  have fin: "saves s' = saves s3" "ckpt_files s' = ckpt_files s3" using f4 by simp_all
  have "case val_loss of
              None \<Rightarrow> saves s' = saves s \<and> ckpt_files s' = ckpt_files s
            | Some v \<Rightarrow>
                if v < best \<and> 0 < iter
                then saves s' = saves s @
                       [(path_join (out_dir c) ''ckpt.pt'',
                         \<lparr>ck_model = weights (model s), ck_optimizer = opt, ck_iter_num = iter,
                           ck_best_val_loss = v\<rparr>)] \<and>
                     ckpt_files s' = (ckpt_files s)
                       (path_join (out_dir c) ''ckpt.pt'' \<mapsto>
                         \<lparr>ck_model = weights (model s), ck_optimizer = opt, ck_iter_num = iter,
                           ck_best_val_loss = v\<rparr>)
                else saves s' = saves s \<and> ckpt_files s' = ckpt_files s"
    using f3 unfolding lo w sv fin by simp
  with e lo show ?thesis by blast
qed

lemma do_eval_checkpoint_any:
  assumes "do_eval_checkpoint c opt best losses iter s = (rk, s')"
  shows "(saves s' = saves s \<and> ckpt_files s' = ckpt_files s) \<or>
         (\<exists>v. snd losses = Some v \<and> v < best \<and> 0 < iter \<and>
              saves s' = saves s @
                [(path_join (out_dir c) ''ckpt.pt'',
                  \<lparr>ck_model = weights (model s), ck_optimizer = opt, ck_iter_num = iter,
                    ck_best_val_loss = v\<rparr>)] \<and>
              ckpt_files s' = (ckpt_files s)
                (path_join (out_dir c) ''ckpt.pt'' \<mapsto>
                  \<lparr>ck_model = weights (model s), ck_optimizer = opt, ck_iter_num = iter,
                    ck_best_val_loss = v\<rparr>))"
  using assms
  by (auto simp: do_eval_checkpoint_def Let_def split: if_splits option.splits)

lemma do_eval_any_outcome:
  assumes "do_eval c env opt best tps tpi iter lr s = (r, s')"
  shows "(saves s' = saves s \<and> ckpt_files s' = ckpt_files s) \<or>
         (\<exists>train_loss v s1.
            estimate_loss c env s = (Inr (train_loss, Some v), s1) \<and> v < best \<and> 0 < iter \<and>
            saves s' = saves s @
              [(path_join (out_dir c) ''ckpt.pt'',
                \<lparr>ck_model = weights (model s), ck_optimizer = opt, ck_iter_num = iter,
                  ck_best_val_loss = v\<rparr>)] \<and>
            ckpt_files s' = (ckpt_files s)
              (path_join (out_dir c) ''ckpt.pt'' \<mapsto>
                \<lparr>ck_model = weights (model s), ck_optimizer = opt, ck_iter_num = iter,
                  ck_best_val_loss = v\<rparr>))"
proof -
  obtain re s1 where e: "estimate_loss c env s = (re, s1)"
    by (cases "estimate_loss c env s")
  note f1 = estimate_loss_state [OF e]
  show ?thesis
  proof (cases re)
    case (Inl err)
    with assms e have "s' = s1" by (simp add: do_eval_def)
    with f1 show ?thesis by simp
  next
    case (Inr losses)
    obtain train_loss val_loss where lo: "losses = (train_loss, val_loss)" by (cases losses)
    obtain rl s2 where l: "do_eval_log c env losses tps iter lr s1 = (rl, s2)"
      by (cases "do_eval_log c env losses tps iter lr s1")
    note f2 = do_eval_log_frame [OF l]
    show ?thesis
    proof (cases rl)
      case (Inl err)
      with assms e Inr l have "s' = s2" by (simp add: do_eval_def)
      with f1 f2 show ?thesis by simp
    next
      case lg: (Inr u)
      obtain rk s3 where k: "do_eval_checkpoint c opt best losses iter s2 = (rk, s3)"
        by (cases "do_eval_checkpoint c opt best losses iter s2")
      have w: "weights (model s2) = weights (model s)" using f1 f2 by simp
      have sv: "saves s2 = saves s" "ckpt_files s2 = ckpt_files s" using f1 f2 by simp_all
      note f3 = do_eval_checkpoint_any [OF k, unfolded w sv lo snd_conv]
      have fin: "saves s' = saves s3 \<and> ckpt_files s' = ckpt_files s3"
      proof (cases rk)
        case (Inl err)
        with assms e Inr l lg k have "s' = s3" by (simp add: do_eval_def)
        then show ?thesis by simp
      next
        case ck: (Inr b)
        with assms e Inr l lg k have
          "do_eval_report c env losses tps tpi iter s3 = (r, s')" by (simp add: do_eval_def)
        from do_eval_report_frame [OF this] show ?thesis by simp
      qed
      from f3 show ?thesis
      proof
        assume "saves s3 = saves s \<and> ckpt_files s3 = ckpt_files s"
        with fin show ?thesis by simp
      next
        assume "\<exists>v. val_loss = Some v \<and> v < best \<and> 0 < iter \<and>
              saves s3 = saves s @
                [(path_join (out_dir c) ''ckpt.pt'',
                  \<lparr>ck_model = weights (model s), ck_optimizer = opt, ck_iter_num = iter,
                    ck_best_val_loss = v\<rparr>)] \<and>
              ckpt_files s3 = (ckpt_files s)
                (path_join (out_dir c) ''ckpt.pt'' \<mapsto>
                  \<lparr>ck_model = weights (model s), ck_optimizer = opt, ck_iter_num = iter,
                    ck_best_val_loss = v\<rparr>)"
        then obtain v where v: "val_loss = Some v" "v < best" "0 < iter"
          "saves s3 = saves s @
                [(path_join (out_dir c) ''ckpt.pt'',
                  \<lparr>ck_model = weights (model s), ck_optimizer = opt, ck_iter_num = iter,
                    ck_best_val_loss = v\<rparr>)]"
          "ckpt_files s3 = (ckpt_files s)
                (path_join (out_dir c) ''ckpt.pt'' \<mapsto>
                  \<lparr>ck_model = weights (model s), ck_optimizer = opt, ck_iter_num = iter,
                    ck_best_val_loss = v\<rparr>)"
          by blast
        have "estimate_loss c env s = (Inr (train_loss, Some v), s1)"
          using e Inr lo v(1) by simp
        with v fin show ?thesis by auto
      qed
    qed
  qed
qed

text \<open>
  Claim C4, as amended. In every evaluation, whatever its outcome, a checkpoint is written
  only if the measured validation loss is below \<open>best_val_loss\<close> and \<open>iter > 0\<close> (so
  never at \<open>iter = 0\<close>), and a save writes the model's weights, the optimizer, the
  iteration and the new best validation loss to \<open>out_dir/ckpt.pt\<close>, replacing what was
  there, while no other checkpoint file changes. In an evaluation that completes, a
  checkpoint is written if and only if that condition holds.
\<close>

theorem do_eval_checkpoint_iff:
  assumes "do_eval c env opt best tps tpi iter lr s = (r, s')"
  shows "((saves s' = saves s \<and> ckpt_files s' = ckpt_files s) \<or>
          (\<exists>train_loss v s1.
             estimate_loss c env s = (Inr (train_loss, Some v), s1) \<and> v < best \<and> 0 < iter \<and>
             saves s' = saves s @
               [(path_join (out_dir c) ''ckpt.pt'',
                 \<lparr>ck_model = weights (model s), ck_optimizer = opt, ck_iter_num = iter,
                   ck_best_val_loss = v\<rparr>)] \<and>
             ckpt_files s' = (ckpt_files s)
               (path_join (out_dir c) ''ckpt.pt'' \<mapsto>
                 \<lparr>ck_model = weights (model s), ck_optimizer = opt, ck_iter_num = iter,
                   ck_best_val_loss = v\<rparr>))) \<and>
         (\<forall>u. r = Inr u \<longrightarrow>
            (\<exists>train_loss val_loss s1.
               estimate_loss c env s = (Inr (train_loss, val_loss), s1) \<and>
               (case val_loss of
                  None \<Rightarrow> saves s' = saves s \<and> ckpt_files s' = ckpt_files s
                | Some v \<Rightarrow>
                    if v < best \<and> 0 < iter
                    then saves s' = saves s @
                           [(path_join (out_dir c) ''ckpt.pt'',
                             \<lparr>ck_model = weights (model s), ck_optimizer = opt, ck_iter_num = iter,
                               ck_best_val_loss = v\<rparr>)] \<and>
                         ckpt_files s' = (ckpt_files s)
                           (path_join (out_dir c) ''ckpt.pt'' \<mapsto>
                             \<lparr>ck_model = weights (model s), ck_optimizer = opt, ck_iter_num = iter,
                               ck_best_val_loss = v\<rparr>)
                    else saves s' = saves s \<and> ckpt_files s' = ckpt_files s)))"
proof (intro conjI allI impI)
  show "(saves s' = saves s \<and> ckpt_files s' = ckpt_files s) \<or>
          (\<exists>train_loss v s1.
             estimate_loss c env s = (Inr (train_loss, Some v), s1) \<and> v < best \<and> 0 < iter \<and>
             saves s' = saves s @
               [(path_join (out_dir c) ''ckpt.pt'',
                 \<lparr>ck_model = weights (model s), ck_optimizer = opt, ck_iter_num = iter,
                   ck_best_val_loss = v\<rparr>)] \<and>
             ckpt_files s' = (ckpt_files s)
               (path_join (out_dir c) ''ckpt.pt'' \<mapsto>
                 \<lparr>ck_model = weights (model s), ck_optimizer = opt, ck_iter_num = iter,
                   ck_best_val_loss = v\<rparr>))"
    by (rule do_eval_any_outcome [OF assms])
next
  fix u
  assume "r = Inr u"
  with assms have "do_eval c env opt best tps tpi iter lr s = (Inr u, s')" by simp
  then show "\<exists>train_loss val_loss s1.
               estimate_loss c env s = (Inr (train_loss, val_loss), s1) \<and>
               (case val_loss of
                  None \<Rightarrow> saves s' = saves s \<and> ckpt_files s' = ckpt_files s
                | Some v \<Rightarrow>
                    if v < best \<and> 0 < iter
                    then saves s' = saves s @
                           [(path_join (out_dir c) ''ckpt.pt'',
                             \<lparr>ck_model = weights (model s), ck_optimizer = opt, ck_iter_num = iter,
                               ck_best_val_loss = v\<rparr>)] \<and>
                         ckpt_files s' = (ckpt_files s)
                           (path_join (out_dir c) ''ckpt.pt'' \<mapsto>
                             \<lparr>ck_model = weights (model s), ck_optimizer = opt, ck_iter_num = iter,
                               ck_best_val_loss = v\<rparr>)
                    else saves s' = saves s \<and> ckpt_files s' = ckpt_files s)"
    by (rule do_eval_completed)
qed

lemma do_eval_sink_raises:
  assumes "wandb_log c" and "estimate_loss c env s = (Inr losses, s1)"
    and "wandb_push env \<lparr>m_iter = iter, m_train_loss = fst losses, m_val_loss = snd losses,
                          m_lr = lr, m_tokens_per_sec = tps\<rparr> = Some e"
  shows "do_eval c env opt best tps tpi iter lr s = (Inl e, s1)"
  using assms by (simp add: do_eval_def do_eval_log_def Let_def)

text \<open>
  Claim C8, as amended. With the metrics sink enabled, a failure raised while pushing the
  record of an evaluation is not caught: \<open>do_eval\<close> ends with that exception before the
  checkpoint step (nothing is saved or printed, the weights are as before), and the
  training loop ends with it at that iteration.
\<close>

theorem sink_failure_ends_training:
  assumes "wandb_log c"
    and "update_lr c iter (v_optimizer v) = Inr (lr, opt)"
    and "eval_interval c \<noteq> 0" and "iter mod eval_interval c = 0"
    and "estimate_loss c env s = (Inr losses, s1)"
    and "wandb_push env \<lparr>m_iter = iter, m_train_loss = fst losses, m_val_loss = snd losses,
                          m_lr = lr, m_tokens_per_sec = v_running_fwd_bwd_tokens_per_sec v\<rparr> = Some e"
  shows "do_eval c env opt (v_best_val_loss v) (v_running_fwd_bwd_tokens_per_sec v)
           (v_running_iter_time v) iter lr s = (Inl e, s1) \<and>
         train_loop c env (iter # iters) v s = (Inl e, s1) \<and>
         saves s1 = saves s \<and> ckpt_files s1 = ckpt_files s \<and> pushed s1 = pushed s \<and>
         console s1 = console s \<and> weights (model s1) = weights (model s)"
proof -
  have d: "do_eval c env opt (v_best_val_loss v) (v_running_fwd_bwd_tokens_per_sec v)
           (v_running_iter_time v) iter lr s = (Inl e, s1)"
    by (rule do_eval_sink_raises [OF assms(1) assms(5) assms(6)])
  have i: "train_iter c env iter v s = (Inl e, s1)"
    using assms(2-4) d by (simp add: train_iter_def)
  have t: "train_loop c env (iter # iters) v s = (Inl e, s1)"
    using i by simp
  show ?thesis
    using d t estimate_loss_state [OF assms(5)] by simp
qed


lemmas eval_defs =
  do_eval_def do_eval_log_def do_eval_checkpoint_def do_eval_report_def
  estimate_loss_def estimate_split_def tensor_mean_def
  get_batch_def memmap_def os_path_join_def path_join_def randint_def py_slice_def stack_def
  run_config_def run_env_def run_state_def default_config_def trained_state_def first_vars_def
  logging_config_def failing_sink_env_def

theorem do_eval_checkpoint_iff_witness:
  "fst (do_eval run_config run_env (v_optimizer first_vars) 3 0 0 250 (1 / 10000) trained_state) = Inr () \<and>
   (\<exists>train_loss v s1.
      estimate_loss run_config run_env trained_state = (Inr (train_loss, Some v), s1) \<and>
      v < 3 \<and> (0::int) < 250 \<and>
      saves (snd (do_eval run_config run_env (v_optimizer first_vars) 3 0 0 250 (1 / 10000)
                    trained_state)) =
        saves trained_state @
        [(path_join (out_dir run_config) ''ckpt.pt'',
          \<lparr>ck_model = weights (model trained_state), ck_optimizer = v_optimizer first_vars,
            ck_iter_num = 250, ck_best_val_loss = v\<rparr>)] \<and>
      ckpt_files (snd (do_eval run_config run_env (v_optimizer first_vars) 3 0 0 250 (1 / 10000)
                         trained_state)) =
        (ckpt_files trained_state)
          (path_join (out_dir run_config) ''ckpt.pt'' \<mapsto>
            \<lparr>ck_model = weights (model trained_state), ck_optimizer = v_optimizer first_vars,
              ck_iter_num = 250, ck_best_val_loss = v\<rparr>)) \<and>
   map (\<lambda>(p, ck). (p, ck_model ck, ck_iter_num ck, ck_best_val_loss ck))
     (saves (snd (do_eval run_config run_env (v_optimizer first_vars) 3 0 0 250 (1 / 10000) trained_state))) =
     [(''out/ckpt.pt'', 1, 250, 21 / 10)] \<and>
   fst (do_eval run_config run_env (v_optimizer first_vars) 3 0 0 0 (1 / 10000) trained_state) = Inr () \<and>
   saves (snd (do_eval run_config run_env (v_optimizer first_vars) 3 0 0 0 (1 / 10000) trained_state)) = []"
proof -
  let ?d = "do_eval run_config run_env (v_optimizer first_vars) 3 0 0 250 (1 / 10000) trained_state"
  let ?z = "do_eval run_config run_env (v_optimizer first_vars) 3 0 0 0 (1 / 10000) trained_state"
  have r: "fst ?d = Inr ()"
    by (simp add: eval_defs One_nat_def upt_rec Let_def)
  have p: "?d = (fst ?d, snd ?d)"
    by simp
  have sv: "map (\<lambda>(p, ck). (p, ck_model ck, ck_iter_num ck, ck_best_val_loss ck)) (saves (snd ?d)) =
     [(''out/ckpt.pt'', 1, 250, 21 / 10)]"
    by (simp add: eval_defs One_nat_def upt_rec Let_def)
  have e: "saves trained_state = []"
    by (simp add: trained_state_def run_state_def)
  from sv e have ne: "saves (snd ?d) \<noteq> saves trained_state"
    by auto
  have z: "fst ?z = Inr ()" "saves (snd ?z) = []"
    by (simp_all add: eval_defs One_nat_def upt_rec Let_def)
  show ?thesis
    using r sv z ne do_eval_checkpoint_iff [OF p] by blast
qed

text \<open>
  The claim as stated fails in its \<open>if\<close> half: with the metrics sink enabled and failing,
  the evaluation at iteration 250 measures the validation loss 2.1, below the best loss
  3.0, and ends with the sink's exception before the checkpoint step: nothing is written.
\<close>

theorem do_eval_checkpoint_counterexample:
  "fst (estimate_loss logging_config failing_sink_env trained_state) = Inr (Some (21 / 10), Some (21 / 10)) \<and>
   (21 / 10 :: real) < 3 \<and> (0::int) < 250 \<and>
   fst (do_eval logging_config failing_sink_env (v_optimizer first_vars) 3 0 0 250 (1 / 10000)
          trained_state) = Inl (ExternalError ''wandb'') \<and>
   saves (snd (do_eval logging_config failing_sink_env (v_optimizer first_vars) 3 0 0 250 (1 / 10000)
                 trained_state)) = [] \<and>
   ckpt_files (snd (do_eval logging_config failing_sink_env (v_optimizer first_vars) 3 0 0 250
                      (1 / 10000) trained_state)) ''out/ckpt.pt'' = None"
  by (simp add: eval_defs One_nat_def upt_rec Let_def)

theorem sink_failure_ends_training_witness:
  "wandb_log logging_config \<and>
   update_lr logging_config 0 (v_optimizer first_vars) =
     Inr (0, (v_optimizer first_vars)\<lparr>param_groups :=
               map (\<lambda>g. g\<lparr>pg_lr := 0\<rparr>) (param_groups (v_optimizer first_vars))\<rparr>) \<and>
   eval_interval logging_config \<noteq> 0 \<and> 0 mod eval_interval logging_config = 0 \<and>
   fst (estimate_loss logging_config failing_sink_env run_state) = Inr (Some 3, Some 3) \<and>
   wandb_push failing_sink_env
     \<lparr>m_iter = 0, m_train_loss = Some 3, m_val_loss = Some 3, m_lr = 0,
       m_tokens_per_sec = v_running_fwd_bwd_tokens_per_sec first_vars\<rparr> = Some (ExternalError ''wandb'') \<and>
   train_loop logging_config failing_sink_env [0, 1, 2] first_vars run_state =
     (Inl (ExternalError ''wandb''), snd (estimate_loss logging_config failing_sink_env run_state)) \<and>
   saves (snd (estimate_loss logging_config failing_sink_env run_state)) = saves run_state \<and>
   console (snd (estimate_loss logging_config failing_sink_env run_state)) = console run_state"
proof -
  let ?e = "estimate_loss logging_config failing_sink_env run_state"
  let ?opt = "(v_optimizer first_vars)\<lparr>param_groups :=
               map (\<lambda>g. g\<lparr>pg_lr := 0\<rparr>) (param_groups (v_optimizer first_vars))\<rparr>"
  have h1: "wandb_log logging_config"
    by (simp add: logging_config_def)
  have h2: "update_lr logging_config 0 (v_optimizer first_vars) = Inr (0, ?opt)"
    by (simp add: update_lr_def get_lr_def logging_config_def run_config_def default_config_def)
  have h3: "eval_interval logging_config \<noteq> 0" "0 mod eval_interval logging_config = 0"
    by (simp_all add: logging_config_def run_config_def)
  have f: "fst ?e = Inr (Some 3, Some 3)"
    by (simp add: eval_defs One_nat_def upt_rec Let_def)
  then have h5: "?e = (Inr (Some 3, Some 3), snd ?e)"
    by (metis prod.collapse)
  have h6: "wandb_push failing_sink_env
     \<lparr>m_iter = 0, m_train_loss = fst (Some 3, Some 3), m_val_loss = snd (Some 3, Some 3), m_lr = 0,
       m_tokens_per_sec = v_running_fwd_bwd_tokens_per_sec first_vars\<rparr> = Some (ExternalError ''wandb'')"
    by (simp add: failing_sink_env_def)
  show ?thesis
    using h1 h2 h3 f h6 sink_failure_ends_training [OF h1 h2 h3 h5 h6, of "[1, 2]"]
    by simp
qed

lemmas run_defs =
  train_def train_iter_def train_log_def step_rejects_def configure_optimizers_def AdamW_def param_dict_of_def
  update_lr_def get_lr_def gpt_params_def eval_defs

text \<open>
  The claim as stated fails: with a sink that fails, the run ends at the evaluation of
  iteration 0 with the sink's exception, before any optimizer step and with nothing
  printed after the optimizer's two lines.
\<close>

theorem sink_failure_counterexample:
  "wandb_log logging_config \<and>
   fst (train logging_config failing_sink_env run_state) = Inl (ExternalError ''wandb'') \<and>
   console (snd (train logging_config failing_sink_env run_state)) =
     [PrintDecayed 2 80, PrintNonDecayed 2 8] \<and>
   weights (model (snd (train logging_config failing_sink_env run_state))) = weights (model run_state)"
  by (simp add: run_defs One_nat_def upt_rec Let_def upto.simps)


subsection \<open>The training loop\<close>

lemma train_log_best:
  "train_log c env iter loss v s = (Inr v', s') \<Longrightarrow> v_best_val_loss v' = v_best_val_loss v"
  by (auto simp: train_log_def Let_def split: if_splits)

lemma train_iter_best:
  "train_iter c env iter v s = (Inr v', s') \<Longrightarrow> v_best_val_loss v' = v_best_val_loss v"
  unfolding train_iter_def
  by (auto simp: Let_def split: sum.splits prod.splits if_splits dest!: train_log_best)

text \<open>
  Claim C1 fails on the code. In the run of three iterations the validation loss is 3.0
  at iteration 0, 2.1 at iteration 1 and 2.5 at iteration 2. The evaluation at iteration 1
  saves a checkpoint with best validation loss 2.1; the loop's \<open>best_val_loss\<close> is still
  the sentinel at iteration 2, so the loss 2.5 triggers a second save, which replaces the
  checkpoint of the better loss.
\<close>

theorem best_val_loss_not_carried:
  "weight_decay run_config = Some (1 / 10) \<and>
   fst (train run_config run_env run_state) = Inr () \<and>
   map (\<lambda>(p, ck). (p, ck_iter_num ck, ck_best_val_loss ck))
     (saves (snd (train run_config run_env run_state))) =
     [(''out/ckpt.pt'', 1, 21 / 10), (''out/ckpt.pt'', 2, 25 / 10)] \<and>
   map_option ck_best_val_loss (ckpt_files (snd (train run_config run_env run_state)) ''out/ckpt.pt'') =
     Some (25 / 10)"
  by (simp add: run_defs One_nat_def upt_rec Let_def upto.simps)

text \<open>
  With the default \<open>weight_decay = None\<close> the same run ends at iteration 0: the first
  \<open>optimizer.step()\<close> raises \<open>TypeError\<close>, after the evaluation of iteration 0 and before
  any weight changes.
\<close>

lemma train_without_weight_decay:
  "fst (train (run_config\<lparr>weight_decay := None\<rparr>) run_env run_state) = Inl TypeError \<and>
   saves (snd (train (run_config\<lparr>weight_decay := None\<rparr>) run_env run_state)) = [] \<and>
   weights (model (snd (train (run_config\<lparr>weight_decay := None\<rparr>) run_env run_state))) = 0"
  by (simp add: run_defs One_nat_def upt_rec Let_def upto.simps)

end
